theory Spec2Isabelle
  imports Main "HOL-Library.Word"
begin

section \<open>Python values shared by the services\<close>

text \<open>
  A Python \<open>bytes\<close> object is a list of 8-bit words, a \<open>str\<close> is a \<open>string\<close>.
  The bytes literal \<open>b"..."\<close> of the source is written \<open>ascii ''...''\<close>.
  An exception is a value; \<open>str(exc)\<close> is its message.
\<close>

type_synonym byte = "8 word"
type_synonym bytes = "byte list"

definition ascii :: "string \<Rightarrow> bytes" where
  "ascii s = map of_char s"

datatype exn =
    ValueError string
  | ImportError string
  | BinasciiError string
  | LibraryError string

fun str_exn :: "exn \<Rightarrow> string" where
  "str_exn (ValueError m) = m"
| "str_exn (ImportError m) = m"
| "str_exn (BinasciiError m) = m"
| "str_exn (LibraryError m) = m"

text \<open>The values stored in the \<open>info\<close> dictionaries of the results.\<close>

datatype jv =
    JNone
  | JBool bool
  | JInt int
  | JStr string
  | JList "jv list"
  | JDict "(string \<times> jv) list"

type_synonym info = "string \<rightharpoonup> jv"

subsection \<open>\<open>str\<close> of an integer\<close>

fun str_nat :: "nat \<Rightarrow> string" where
  "str_nat n =
     (if n < 10 then [''0123456789'' ! n]
      else str_nat (n div 10) @ [''0123456789'' ! (n mod 10)])"

definition str_int :: "int \<Rightarrow> string" where
  "str_int i = (if i < 0 then ''-'' @ str_nat (nat (- i)) else str_nat (nat i))"

subsection \<open>\<open>bytes.fromhex\<close>\<close>

text \<open>
  Two hexadecimal digits per byte; ASCII whitespace is skipped before each byte, never
  between the two digits of one byte. Anything else raises \<open>ValueError\<close> with the
  position of the offending character, as CPython 3.11 reports it: the position of the
  first character that is not ASCII when there is one, otherwise the position where a
  digit was expected, which is the length of the string when the last digit has no
  partner.
\<close>

definition hexdigit :: "char \<Rightarrow> nat option" where
  "hexdigit c =
     (let n = (of_char c :: nat) in
      if 48 \<le> n \<and> n \<le> 57 then Some (n - 48)
      else if 97 \<le> n \<and> n \<le> 102 then Some (n - 87)
      else if 65 \<le> n \<and> n \<le> 70 then Some (n - 55)
      else None)"

definition is_space_char :: "char \<Rightarrow> bool" where
  "is_space_char c = ((of_char c :: nat) \<in> {32, 9, 10, 13, 11, 12})"

definition fromhex_error :: "nat \<Rightarrow> exn" where
  "fromhex_error pos =
     ValueError (''non-hexadecimal number found in fromhex() arg at position '' @ str_nat pos)"

fun first_non_ascii :: "nat \<Rightarrow> string \<Rightarrow> nat option" where
  "first_non_ascii pos [] = None"
| "first_non_ascii pos (c # cs) =
     (if (of_char c :: nat) \<ge> 128 then Some pos else first_non_ascii (pos + 1) cs)"

fun fromhex_at :: "nat \<Rightarrow> string \<Rightarrow> exn + bytes" where
  "fromhex_at pos [] = Inr []"
| "fromhex_at pos [c] =
     (if is_space_char c then Inr []
      else if hexdigit c = None then Inl (fromhex_error pos)
      else Inl (fromhex_error (pos + 1)))"
| "fromhex_at pos (c # d # cs) =
     (if is_space_char c then fromhex_at (pos + 1) (d # cs)
      else case hexdigit c of
             None \<Rightarrow> Inl (fromhex_error pos)
           | Some hi \<Rightarrow>
               (case hexdigit d of
                  None \<Rightarrow> Inl (fromhex_error (pos + 1))
                | Some lo \<Rightarrow>
                    (case fromhex_at (pos + 2) cs of
                       Inl e \<Rightarrow> Inl e
                     | Inr bs \<Rightarrow> Inr (of_nat (16 * hi + lo) # bs))))"

definition fromhex :: "string \<Rightarrow> exn + bytes" where
  "fromhex s =
     (case first_non_ascii 0 s of
        Some pos \<Rightarrow> Inl (fromhex_error pos)
      | None \<Rightarrow> fromhex_at 0 s)"

subsection \<open>Methods of \<open>bytes\<close> used by the token decoder\<close>

definition is_ascii :: "bytes \<Rightarrow> bool" where
  \<comment> \<open>\<open>tsr_bytes.decode("ascii")\<close> does not raise \<open>UnicodeDecodeError\<close>\<close>
  "is_ascii bs = list_all (\<lambda>b. b < 128) bs"

definition is_space :: "byte \<Rightarrow> bool" where
  "is_space b = (b \<in> {32, 9, 10, 13, 11, 12})"

definition strip :: "bytes \<Rightarrow> bytes" where
  "strip bs = rev (dropWhile is_space (rev (dropWhile is_space bs)))"

definition startswith :: "bytes \<Rightarrow> bytes \<Rightarrow> bool" where
  "startswith bs p = (take (length p) bs = p)"

fun splitlines_from :: "bytes \<Rightarrow> bytes \<Rightarrow> bytes list" where
  "splitlines_from cur [] = (if cur = [] then [] else [cur])"
| "splitlines_from cur (c # cs) =
     (if c = 10 then cur # splitlines_from [] cs
      else if c = 13 then
        (case cs of
           [] \<Rightarrow> [cur]
         | d # ds \<Rightarrow> if d = 10 then cur # splitlines_from [] ds
                    else cur # splitlines_from [] cs)
      else splitlines_from (cur @ [c]) cs)"

definition splitlines :: "bytes \<Rightarrow> bytes list" where
  "splitlines bs = splitlines_from [] bs"

definition remove_byte :: "byte \<Rightarrow> bytes \<Rightarrow> bytes" where
  \<comment> \<open>\<open>bs.replace(b, b"")\<close> for a single byte \<open>b\<close>\<close>
  "remove_byte b bs = filter (\<lambda>c. c \<noteq> b) bs"

section \<open>The signed-token service: \<open>tsa_service.py\<close>\<close>

subsection \<open>\<open>_decode_tsa_response\<close>\<close>

text \<open>
  The strict decoder (\<open>rfc3161ng.decode_timestamp_response\<close>) and \<open>base64.b64decode\<close>
  are parameters: each returns its value or the exception it raises. The function
  returns, next to its outcome, the calls it made in order, so that what was attempted
  can be stated.
\<close>

datatype call =
    StrictDecode bytes
  | B64Decode bool bytes

type_synonym 'tsr decoder = "bytes \<Rightarrow> exn + 'tsr"
type_synonym b64decoder = "bool \<Rightarrow> bytes \<Rightarrow> exn + bytes"

definition MalformedBinaryToken :: exn where
  "MalformedBinaryToken = ValueError ''tsa response is binary but not RFC3161 TimeStampResp''"

definition InvalidBase64Alphabet :: exn where
  "InvalidBase64Alphabet = ValueError ''tsa response is not base64 or ASN.1 data''"

definition allowed :: bytes where
  "allowed = ascii ''ABCDEFGHIJKLMNOPQRSTUVWXYZabcdefghijklmnopqrstuvwxyz0123456789+/=''"

definition decode_b64 :: "'tsr decoder \<Rightarrow> b64decoder \<Rightarrow> bool \<Rightarrow> bytes \<Rightarrow> call list \<times> (exn + 'tsr)" where
  \<comment> \<open>\<open>decoder(base64.b64decode(text, validate=v))\<close>\<close>
  "decode_b64 decoder b64decode v text =
     (case b64decode v text of
        Inl e \<Rightarrow> ([B64Decode v text], Inl e)
      | Inr raw \<Rightarrow> ([B64Decode v text, StrictDecode raw], decoder raw))"

definition pad_b64 :: "bytes \<Rightarrow> bytes" where
  "pad_b64 b64_text =
     (let missing = nat ((- int (length b64_text)) mod 4)
      in if missing \<noteq> 0 then b64_text @ replicate missing 61 else b64_text)"

definition decode_tsa_response ::
  "'tsr decoder \<Rightarrow> b64decoder \<Rightarrow> bytes \<Rightarrow> call list \<times> (exn + 'tsr)" where
  "decode_tsa_response decoder b64decode tsr_bytes =
     (case decoder tsr_bytes of
        Inr tsr \<Rightarrow> ([StrictDecode tsr_bytes], Inr tsr)
      | Inl _ \<Rightarrow>
          if \<not> is_ascii tsr_bytes then ([StrictDecode tsr_bytes], Inl MalformedBinaryToken)
          else
            let text = strip tsr_bytes in
            if startswith text (ascii ''-----BEGIN'') then
              let parts = splitlines text;
                  b64 = concat (filter (\<lambda>line. \<not> startswith line (ascii ''-----'')) parts);
                  (cs, r) = decode_b64 decoder b64decode False b64
              in (StrictDecode tsr_bytes # cs, r)
            else
              let b64_text = remove_byte 13 (remove_byte 10 text) in
              if list_ex (\<lambda>ch. ch \<notin> set allowed) b64_text
              then ([StrictDecode tsr_bytes], Inl InvalidBase64Alphabet)
              else
                let padded = pad_b64 b64_text;
                    (cs1, r1) = decode_b64 decoder b64decode True padded
                in (case r1 of
                      Inr tsr \<Rightarrow> (StrictDecode tsr_bytes # cs1, Inr tsr)
                    | Inl _ \<Rightarrow>
                        (let (cs2, r2) = decode_b64 decoder b64decode False padded
                         in (StrictDecode tsr_bytes # (cs1 @ cs2), r2))))"

subsection \<open>The objects of \<open>rfc3161ng\<close> and \<open>pyasn1\<close> that the service reads\<close>

record message_imprint =
  hashAlgorithm :: "string option"
    \<comment> \<open>the OID under \<open>hashAlgorithm\<close>, \<open>None\<close> when the component is absent or unreadable\<close>
  hashedMessage :: "bytes option"
    \<comment> \<open>\<open>None\<close> when \<open>bytes(...)\<close> of the component raises\<close>

record tst_info =
  messageImprint :: "message_imprint option"

datatype tst =
    TstWithInfo "tst_info option"
      \<comment> \<open>the token has the attribute \<open>tst_info\<close>\<close>
  | TstContent "bytes option"
      \<comment> \<open>no such attribute: the bytes under content / contentInfo / content, \<open>None\<close> when
          reaching them raises\<close>

record tsr =
  status :: "string option"
  time :: "string option"
  time_stamp_token :: "tst option"

record rfc3161ng =
  decode_timestamp_response :: "(bytes \<Rightarrow> exn + tsr) option"
  get_timestamp :: "(bytes \<Rightarrow> exn + string) option"
  oid_to_hash :: "(string \<times> string) list"
  der_decode_token :: "bytes \<Rightarrow> exn + tst"
    \<comment> \<open>\<open>der_decoder.decode(tsr_bytes, asn1Spec=rfc3161ng.TimeStampToken())[0]\<close>\<close>
  ber_decode :: "bytes \<Rightarrow> exn + bytes \<times> bytes"
    \<comment> \<open>\<open>ber_decoder.decode(bytes(content))\<close>: the inner value and the rest of the substrate\<close>
  ber_decode_tst_info :: "bytes \<Rightarrow> exn + tst_info \<times> bytes"
    \<comment> \<open>\<open>ber_decoder.decode(bytes(inner), asn1Spec=rfc3161ng.TSTInfo())\<close>\<close>

datatype response =
    RespNone
  | RespBytes bytes
  | RespStr string
  | RespObj "bytes option option" "bytes option option" "bytes option option"
      \<comment> \<open>the attributes \<open>binary\<close>, \<open>content\<close>, \<open>data\<close>; the outer \<open>None\<close> is a missing attribute\<close>

record tsa_env =
  import_rfc3161ng :: "exn + rfc3161ng"
  b64decode :: b64decoder
  remote_timestamper :: "exn + (string \<Rightarrow> bytes \<Rightarrow> exn + response)"
    \<comment> \<open>the import of \<open>RemoteTimestamper\<close>, then \<open>RemoteTimestamper(url, hashname="sha256")(digest=d)\<close>\<close>
  utf8_replace :: "bytes \<Rightarrow> string"
    \<comment> \<open>\<open>bs.decode("utf-8", errors="replace")\<close>\<close>
  utf8_encode :: "string \<Rightarrow> bytes"
  repr_dict :: "(string \<times> jv) list \<Rightarrow> string"
    \<comment> \<open>how an f-string prints a dictionary\<close>

record TSAResult =
  tsa_success :: bool
  tsa_error :: "string option"
  tsa_info :: info
  tsr_bytes :: "bytes option"

definition truthy :: "string option \<Rightarrow> bool" where
  \<comment> \<open>\<open>if s:\<close> for an optional string\<close>
  "truthy s = (case s of None \<Rightarrow> False | Some t \<Rightarrow> t \<noteq> [])"

subsection \<open>\<open>_extract_tsa_info\<close>\<close>

definition try_decode :: "tsa_env \<Rightarrow> rfc3161ng \<Rightarrow> bytes \<Rightarrow> tsr option" where
  \<comment> \<open>the \<open>try\<close> around \<open>_decode_tsa_response\<close>: any exception is dropped\<close>
  "try_decode env m bs =
     (case decode_timestamp_response m of
        None \<Rightarrow> None
      | Some decoder \<Rightarrow>
          (case snd (decode_tsa_response decoder (b64decode env) bs) of
             Inr t \<Rightarrow> Some t
           | Inl _ \<Rightarrow> None))"

definition put_opt :: "string \<Rightarrow> string option \<Rightarrow> info \<Rightarrow> info" where
  "put_opt k v i = (case v of None \<Rightarrow> i | Some s \<Rightarrow> i(k \<mapsto> JStr s))"

definition extract_tsa_info :: "tsa_env \<Rightarrow> bytes \<Rightarrow> info \<times> string option" where
  "extract_tsa_info env bs =
     (case import_rfc3161ng env of
        Inl exc \<Rightarrow> (Map.empty, Some (str_exn exc))
      | Inr m \<Rightarrow>
          (case try_decode env m bs of
             Some t \<Rightarrow>
               ((put_opt ''time'' (time t) (put_opt ''status'' (status t) Map.empty))
                  (''format'' \<mapsto> JStr ''tsr''), None)
           | None \<Rightarrow>
               (case get_timestamp m of
                  Some token_parser \<Rightarrow>
                    (case token_parser bs of
                       Inr timestamp \<Rightarrow>
                         ([''time'' \<mapsto> JStr timestamp, ''format'' \<mapsto> JStr ''tst''], None)
                     | Inl exc \<Rightarrow> (Map.empty, Some (''invalid tsa response: '' @ str_exn exc)))
                | None \<Rightarrow> (Map.empty, Some ''invalid tsa response: decoder unavailable''))))"

subsection \<open>\<open>_extract_tst_token\<close> and \<open>_extract_message_imprint\<close>\<close>

definition extract_tst_token :: "tsa_env \<Rightarrow> rfc3161ng \<Rightarrow> bytes \<Rightarrow> tst option" where
  "extract_tst_token env m bs =
     (case (case try_decode env m bs of None \<Rightarrow> None | Some t \<Rightarrow> time_stamp_token t) of
        Some t \<Rightarrow> Some t
      | None \<Rightarrow> (case der_decode_token m bs of Inr t \<Rightarrow> Some t | Inl _ \<Rightarrow> None))"

definition find_tst_info :: "rfc3161ng \<Rightarrow> tst \<Rightarrow> tst_info option" where
  \<comment> \<open>\<open>None\<close> stands for every \<open>return None, debug_info\<close> and every exception on the way\<close>
  "find_tst_info m t =
     (case t of
        TstWithInfo ti \<Rightarrow> ti
      | TstContent None \<Rightarrow> None
      | TstContent (Some content) \<Rightarrow>
          (case ber_decode m content of
             Inl _ \<Rightarrow> None
           | Inr (inner, substrate) \<Rightarrow>
               if substrate \<noteq> [] then None
               else (case ber_decode_tst_info m inner of
                       Inl _ \<Rightarrow> None
                     | Inr (ti, substrate') \<Rightarrow> if substrate' \<noteq> [] then None else Some ti)))"

definition hexchar :: "nat \<Rightarrow> char" where
  "hexchar n = ''0123456789abcdef'' ! n"

definition hex :: "bytes \<Rightarrow> string" where
  "hex bs = concat (map (\<lambda>b. [hexchar (unat b div 16), hexchar (unat b mod 16)]) bs)"

definition extract_message_imprint :: "rfc3161ng \<Rightarrow> tst \<Rightarrow> bytes option \<times> (string \<times> jv) list" where
  "extract_message_imprint m t =
     (case find_tst_info m t of
        None \<Rightarrow> (None, [])
      | Some ti \<Rightarrow>
          (case messageImprint ti of
             None \<Rightarrow> (None, [])
           | Some mi \<Rightarrow>
               (let debug_info =
                      (case hashAlgorithm mi of
                         None \<Rightarrow> []
                       | Some oid \<Rightarrow>
                           [(''hash_oid'', JStr oid),
                            (''hash_alg'', case map_of (oid_to_hash m) oid of
                                             None \<Rightarrow> JNone | Some h \<Rightarrow> JStr h)])
                in case hashedMessage mi of
                     None \<Rightarrow> (None, [])
                   | Some digest_bytes \<Rightarrow>
                       (Some digest_bytes,
                        debug_info @ [(''imprint_hex'', JStr (hex digest_bytes))]))))"

subsection \<open>\<open>_check_tsa_hash\<close>, \<open>verify_tsa\<close>, \<open>create_tsa\<close>\<close>

definition check_tsa_hash :: "tsa_env \<Rightarrow> rfc3161ng \<Rightarrow> bytes \<Rightarrow> string \<Rightarrow> string option" where
  "check_tsa_hash env m bs hash_hex =
     (case fromhex hash_hex of
        Inl _ \<Rightarrow> Some ''invalid hash hex''
      | Inr digest \<Rightarrow>
          (case extract_tst_token env m bs of
             None \<Rightarrow> Some ''invalid tsa response: missing timestamp token''
           | Some t \<Rightarrow>
               (case extract_message_imprint m t of
                  (None, _) \<Rightarrow> Some ''invalid tsa response: missing message imprint''
                | (Some imprint, debug_info) \<Rightarrow>
                    if imprint \<noteq> digest
                    then Some (''hash mismatch: digest not equal ('' @ repr_dict env debug_info @ '')'')
                    else None)))"

definition tsa_fail :: "string option \<Rightarrow> info \<Rightarrow> TSAResult" where
  "tsa_fail e i = \<lparr>tsa_success = False, tsa_error = e, tsa_info = i, tsr_bytes = None\<rparr>"

definition verify_tsa :: "tsa_env \<Rightarrow> bytes \<Rightarrow> string option \<Rightarrow> TSAResult" where
  "verify_tsa env bs hash_hex =
     (case import_rfc3161ng env of
        Inl exc \<Rightarrow> tsa_fail (Some (str_exn exc)) Map.empty
      | Inr m \<Rightarrow>
          (let (info, error) = extract_tsa_info env bs in
           if truthy error then tsa_fail error info
           else if truthy hash_hex \<and> truthy (check_tsa_hash env m bs (the hash_hex))
           then tsa_fail (check_tsa_hash env m bs (the hash_hex)) info
           else \<lparr>tsa_success = True, tsa_error = None, tsa_info = info, tsr_bytes = None\<rparr>))"



subsection \<open>The digest length of a declared algorithm\<close>

text \<open>
  Section 3 of the specification calls a token well-formed when the length of its
  hashed message is the digest length of the algorithm it declares. The service has no
  such check. \<open>imprint_length_ok\<close> states the invariant, with the output sizes in bytes of
  the hash functions that \<open>oid_to_hash\<close> names.
\<close>

definition digest_size :: "string \<Rightarrow> nat option" where
  "digest_size name =
     (if name = ''sha1'' then Some 20
      else if name = ''sha256'' then Some 32
      else if name = ''sha384'' then Some 48
      else if name = ''sha512'' then Some 64
      else None)"

definition imprint_length_ok :: "rfc3161ng \<Rightarrow> message_imprint \<Rightarrow> bool" where
  "imprint_length_ok m mi =
     (case (hashAlgorithm mi, hashedMessage mi) of
        (Some oid, Some h) \<Rightarrow>
          (case map_of (oid_to_hash m) oid of
             Some name \<Rightarrow> digest_size name = Some (length h)
           | None \<Rightarrow> False)
      | _ \<Rightarrow> False)"

section \<open>The calendar service: \<open>ots_service.py\<close>\<close>

subsection \<open>Attestations and proof trees\<close>

text \<open>
  The service reads of a \<open>Timestamp\<close> its \<open>msg\<close>, its \<open>attestations\<close> and the values
  of its \<open>ops\<close>, which are timestamps again. The attestation classes it tells apart are
  the pending one and the two block header ones; any other class is kept by its name.
  A set and a dictionary of the library are lists in insertion order.
\<close>

datatype attestation =
    PendingAttestation string
  | BitcoinBlockHeaderAttestation int
  | LitecoinBlockHeaderAttestation int
  | OtherAttestation string

fun class_name :: "attestation \<Rightarrow> string" where
  "class_name (PendingAttestation uri) = ''PendingAttestation''"
| "class_name (BitcoinBlockHeaderAttestation height) = ''BitcoinBlockHeaderAttestation''"
| "class_name (LitecoinBlockHeaderAttestation height) = ''LitecoinBlockHeaderAttestation''"
| "class_name (OtherAttestation name) = name"

datatype op =
    OpAppend bytes
  | OpPrepend bytes
  | OpSHA1
  | OpRIPEMD160
  | OpSHA256
  | OpKECCAK256

datatype timestamp =
  Timestamp (msg: bytes) (attestations: "attestation list") (ops: "(op \<times> timestamp) list")

record detached =
  file_hash_op :: op
  timestamp :: timestamp

text \<open>
  \<open>timestamp.all_attestations()\<close>: the attestations of the node with its message, then
  those of the sub-trees.
\<close>

fun all_attestations :: "timestamp \<Rightarrow> (bytes \<times> attestation) list"
  and all_attestations_ops :: "(op \<times> timestamp) list \<Rightarrow> (bytes \<times> attestation) list" where
  "all_attestations (Timestamp m atts os) = map (Pair m) atts @ all_attestations_ops os"
| "all_attestations_ops [] = []"
| "all_attestations_ops ((opr, t) # os) = all_attestations t @ all_attestations_ops os"

subsection \<open>Merging proof trees\<close>

text \<open>
  Modelled from the spec: \<open>Timestamp.merge\<close> is a method of the opentimestamps library,
  which is not among the sources. Section 4.2 of the specification asks that merging two
  trees rooted at the same message gives the union of the operation paths and the union
  of the attestations, without duplicating a path that is already there. \<open>merge_into a b\<close>
  is \<open>a\<close> after \<open>a.merge(b)\<close>: an attestation of \<open>b\<close> is added unless present, and a
  sub-tree of \<open>b\<close> is merged into the sub-tree of \<open>a\<close> under the same operation, or
  added when \<open>a\<close> has none. \<open>merge\<close> refuses trees with different messages.
\<close>

definition union_atts :: "attestation list \<Rightarrow> attestation list \<Rightarrow> attestation list" where
  "union_atts as bs = fold (\<lambda>b acc. if b \<in> set acc then acc else acc @ [b]) bs as"

fun merge_into :: "timestamp \<Rightarrow> timestamp \<Rightarrow> timestamp"
  and merge_ops :: "(op \<times> timestamp) list \<Rightarrow> (op \<times> timestamp) list \<Rightarrow> (op \<times> timestamp) list"
  and merge_op :: "(op \<times> timestamp) list \<Rightarrow> op \<Rightarrow> timestamp \<Rightarrow> (op \<times> timestamp) list" where
  "merge_into (Timestamp m atts os) (Timestamp m' atts' os') =
     Timestamp m (union_atts atts atts') (merge_ops os os')"
| "merge_ops os [] = os"
| "merge_ops os ((opr, t) # os') = merge_ops (merge_op os opr t) os'"
| "merge_op [] opr t = [(opr, t)]"
| "merge_op ((opr', c) # os) opr t =
     (if opr' = opr then (opr', merge_into c t) # os else (opr', c) # merge_op os opr t)"

definition merge :: "timestamp \<Rightarrow> timestamp \<Rightarrow> exn + timestamp" where
  "merge a b =
     (if msg a \<noteq> msg b
      then Inl (ValueError ''Can't merge timestamps for different messages together'')
      else Inr (merge_into a b))"

text \<open>A dictionary has one entry per key: the operations of every node are distinct.\<close>

fun well_formed :: "timestamp \<Rightarrow> bool"
  and well_formed_ops :: "(op \<times> timestamp) list \<Rightarrow> bool" where
  "well_formed (Timestamp m atts os) = (distinct (map fst os) \<and> well_formed_ops os)"
| "well_formed_ops [] = True"
| "well_formed_ops ((opr, t) # os) = (well_formed t \<and> well_formed_ops os)"

subsection \<open>When a tree holds another\<close>

text \<open>
  \<open>contains c t\<close>: every attestation of \<open>t\<close> is one of \<open>c\<close>, and under every operation of
  \<open>t\<close> the tree \<open>c\<close> has a sub-tree that contains the one of \<open>t\<close>.
\<close>

fun contains :: "timestamp \<Rightarrow> timestamp \<Rightarrow> bool"
  and contains_ops :: "(op \<times> timestamp) list \<Rightarrow> (op \<times> timestamp) list \<Rightarrow> bool" where
  "contains (Timestamp m atts os) (Timestamp m' atts' os') =
     (list_all (\<lambda>a. a \<in> set atts) atts' \<and> contains_ops os os')"
| "contains_ops os [] = True"
| "contains_ops os ((opr, t) # os') =
     ((case map_of os opr of None \<Rightarrow> False | Some c \<Rightarrow> contains c t) \<and> contains_ops os os')"

subsection \<open>The environment of the calendar service\<close>

text \<open>
  What the service takes from outside: the imports it attempts, the calls of the
  opentimestamps library, the settings, string formatting and the HTTP client. A call
  returns its value or the exception it raises. Every call that leaves the process, and
  every call of the block-hash lookup, is recorded, in order, in a list of \<open>net\<close> events
  returned with the outcome.
\<close>

datatype net =
    CalendarSubmit string bytes
  | CalendarGet string bytes
  | ClientStamp bytes
  | ClientVerify bytes
  | BlockHashLookup string int
  | HttpGet string

type_synonym 'a io = "net list \<times> (exn + 'a)"

definition ret :: "'a \<Rightarrow> 'a io" where
  "ret x = ([], Inr x)"

definition bind :: "'a io \<Rightarrow> ('a \<Rightarrow> 'b io) \<Rightarrow> 'b io" where
  "bind m f =
     (case m of
        (tr, Inl e) \<Rightarrow> (tr, Inl e)
      | (tr, Inr x) \<Rightarrow> (case f x of (tr', r) \<Rightarrow> (tr @ tr', r)))"

definition catch :: "'a io \<Rightarrow> (exn \<Rightarrow> 'a io) \<Rightarrow> 'a io" where
  "catch m h =
     (case m of
        (tr, Inl e) \<Rightarrow> (case h e of (tr', r) \<Rightarrow> (tr @ tr', r))
      | (tr, Inr x) \<Rightarrow> (tr, Inr x))"

definition lift :: "exn + 'a \<Rightarrow> 'a io" where
  \<comment> \<open>a call that stays inside the process\<close>
  "lift r = ([], r)"

definition net_call :: "net \<Rightarrow> exn + 'a \<Rightarrow> 'a io" where
  "net_call ev r = ([ev], r)"

record settings =
  tsa_url :: string
  ots_calendar_urls :: "string list"
  btc_block_hash_api :: string
  ltc_block_hash_api :: string
  btc_explorer_block_url :: string
  ltc_explorer_block_url :: string
  btc_explorer_height_url :: string
  ltc_explorer_height_url :: string

record http_response =
  resp_ok :: bool
  resp_status_code :: int
  resp_text :: string
  resp_json :: "exn + jv"

record ots_client =
  ots_stamp :: "timestamp \<Rightarrow> exn + timestamp"
  ots_verify :: "timestamp \<Rightarrow> exn + string option"
  client_serialize :: "timestamp \<Rightarrow> exn + bytes"
  client_deserialize :: "bytes \<Rightarrow> exn + timestamp"

record ots_env =
  import_client :: "exn + ots_client"
    \<comment> \<open>\<open>from opentimestamps.client import stamp, verify\<close>\<close>
  import_client_fallback :: "exn + ots_client option"
    \<comment> \<open>\<open>import opentimestamps\<close>; \<open>None\<close> when \<open>stamp\<close> and \<open>verify\<close> are not both callable\<close>
  import_core :: "exn option"
    \<comment> \<open>the imports from \<open>opentimestamps.core\<close> and \<open>opentimestamps.calendar\<close>; \<open>None\<close> is success\<close>
  import_notary :: bool
  calendar_submit :: "string \<Rightarrow> bytes \<Rightarrow> exn + timestamp"
    \<comment> \<open>\<open>RemoteCalendar(url).submit(digest)\<close>\<close>
  calendar_get_timestamp :: "string \<Rightarrow> bytes \<Rightarrow> exn + timestamp"
    \<comment> \<open>\<open>RemoteCalendar(uri).get_timestamp(msg)\<close>\<close>
  serialize_detached :: "detached \<Rightarrow> exn + bytes"
  deserialize_detached :: "bytes \<Rightarrow> exn + detached"
  load_settings :: settings
  format_template :: "string \<Rightarrow> (string \<times> string) list \<Rightarrow> exn + string"
    \<comment> \<open>\<open>template.format(**kwargs)\<close>\<close>
  requests_get :: "string \<Rightarrow> exn + http_response"
  repr_json :: "jv \<Rightarrow> string"

record OTSResult =
  ots_success :: bool
  ots_error :: "string option"
  ots_info :: info
  ots_bytes :: "bytes option"
  updated_ots_bytes :: "bytes option"

definition ots_fail :: "string \<Rightarrow> info \<Rightarrow> OTSResult" where
  "ots_fail e i =
     \<lparr>ots_success = False, ots_error = Some e, ots_info = i, ots_bytes = None,
      updated_ots_bytes = None\<rparr>"

subsection \<open>\<open>_load_ots_client\<close>\<close>

definition load_ots_client :: "ots_env \<Rightarrow> ots_client option \<times> string option" where
  "load_ots_client env =
     (case import_client env of
        Inr c \<Rightarrow> (Some c, None)
      | Inl exc \<Rightarrow>
          (let primary_error = ''import opentimestamps.client failed: '' @ str_exn exc in
           case import_client_fallback env of
             Inr (Some c) \<Rightarrow> (Some c, None)
           | Inr None \<Rightarrow> (None, Some primary_error)
           | Inl exc' \<Rightarrow>
               (None, Some (primary_error @ ''; '' @
                            ''fallback opentimestamps import failed: '' @ str_exn exc'))))"

subsection \<open>\<open>_create_ots_with_calendar\<close> and \<open>create_ots\<close>\<close>

text \<open>
  The loop over the calendars carries the accumulating tree, the error strings and the
  number of successes. An endpoint succeeds when both its submission and the merge of
  its answer return.
\<close>

fun calendar_loop ::
  "ots_env \<Rightarrow> bytes \<Rightarrow> string list \<Rightarrow> timestamp \<times> string list \<times> nat
     \<Rightarrow> net list \<times> timestamp \<times> string list \<times> nat" where
  "calendar_loop env digest [] st = ([], st)"
| "calendar_loop env digest (url # urls) (base_ts, errors, success_count) =
     (let st' =
        (case calendar_submit env url digest of
           Inl exc \<Rightarrow> (base_ts, errors @ [url @ '': '' @ str_exn exc], success_count)
         | Inr cal_ts \<Rightarrow>
             (case merge base_ts cal_ts of
                Inl exc \<Rightarrow> (base_ts, errors @ [url @ '': '' @ str_exn exc], success_count)
              | Inr merged \<Rightarrow> (merged, errors, success_count + 1)));
          (tr, final) = calendar_loop env digest urls st'
      in (CalendarSubmit url digest # tr, final))"

definition create_ots_with_calendar :: "ots_env \<Rightarrow> string \<Rightarrow> string list \<Rightarrow> OTSResult io" where
  "create_ots_with_calendar env hash_hex calendars =
     (case import_core env of
        Some exc \<Rightarrow> ret (ots_fail (''opentimestamps core unavailable: '' @ str_exn exc) Map.empty)
      | None \<Rightarrow>
          if calendars = [] then ret (ots_fail ''no calendars configured'' Map.empty)
          else
            bind (lift (fromhex hash_hex)) (\<lambda>digest.
              case calendar_loop env digest calendars (Timestamp digest [] [], [], 0) of
                (tr, base_ts, errors, success_count) \<Rightarrow>
                  if success_count = 0
                  then (tr, Inr (ots_fail ''all calendars failed''
                                   [''errors'' \<mapsto> JList (map JStr errors)]))
                  else
                    bind (tr, serialize_detached env
                                \<lparr>file_hash_op = OpSHA256, timestamp = base_ts\<rparr>)
                      (\<lambda>bs. ret \<lparr>ots_success = True, ots_error = None,
                                 ots_info = [''calendar_success'' \<mapsto> JInt (int success_count),
                                             ''calendar_errors'' \<mapsto> JList (map JStr errors)],
                                 ots_bytes = Some bs, updated_ots_bytes = None\<rparr>)))"

definition create_ots :: "ots_env \<Rightarrow> string \<Rightarrow> string list option \<Rightarrow> OTSResult io" where
  "create_ots env hash_hex calendars =
     catch
       (case fst (load_ots_client env) of
          None \<Rightarrow>
            create_ots_with_calendar env hash_hex (case calendars of None \<Rightarrow> [] | Some cs \<Rightarrow> cs)
        | Some client \<Rightarrow>
            bind (lift (fromhex hash_hex)) (\<lambda>digest.
            bind (net_call (ClientStamp digest) (ots_stamp client (Timestamp digest [] []))) (\<lambda>stamped.
            bind (lift (client_serialize client stamped)) (\<lambda>bs.
              ret \<lparr>ots_success = True, ots_error = None, ots_info = Map.empty,
                   ots_bytes = Some bs, updated_ots_bytes = None\<rparr>))))
       (\<lambda>exc. ret (ots_fail (str_exn exc) Map.empty))"

subsection \<open>The outcome of each endpoint\<close>

text \<open>
  What aggregation is meant to report, stated endpoint by endpoint: \<open>outcomes\<close> pairs
  every endpoint, in order, with the result of its attempt on the tree accumulated so
  far; \<open>failure_strings\<close> are the messages of the failed ones and \<open>successes\<close> counts the
  others.
\<close>

definition attempt :: "ots_env \<Rightarrow> bytes \<Rightarrow> timestamp \<Rightarrow> string \<Rightarrow> exn + timestamp" where
  "attempt env digest base url =
     (case calendar_submit env url digest of
        Inl exc \<Rightarrow> Inl exc
      | Inr cal_ts \<Rightarrow> merge base cal_ts)"

fun outcomes :: "ots_env \<Rightarrow> bytes \<Rightarrow> timestamp \<Rightarrow> string list \<Rightarrow> (string \<times> (exn + timestamp)) list" where
  "outcomes env digest base [] = []"
| "outcomes env digest base (url # urls) =
     (url, attempt env digest base url)
       # outcomes env digest (case attempt env digest base url of Inl _ \<Rightarrow> base | Inr b \<Rightarrow> b) urls"

definition failure_strings :: "(string \<times> (exn + timestamp)) list \<Rightarrow> string list" where
  "failure_strings outs =
     concat (map (\<lambda>(url, r). case r of Inl exc \<Rightarrow> [url @ '': '' @ str_exn exc] | Inr _ \<Rightarrow> []) outs)"

definition successes :: "(string \<times> (exn + timestamp)) list \<Rightarrow> nat" where
  "successes outs = length (filter (\<lambda>(url, r). \<not> isl r) outs)"

subsection \<open>\<open>_collect_attestation_info\<close>\<close>

fun is_blockchain :: "attestation \<Rightarrow> bool" where
  "is_blockchain (BitcoinBlockHeaderAttestation height) = True"
| "is_blockchain (LitecoinBlockHeaderAttestation height) = True"
| "is_blockchain att = False"

fun is_pending :: "attestation \<Rightarrow> bool" where
  "is_pending (PendingAttestation uri) = True"
| "is_pending att = False"

definition collect_attestation_items :: "ots_env \<Rightarrow> timestamp \<Rightarrow> (string \<times> jv) list" where
  "collect_attestation_items env ts =
     (if \<not> import_notary env then []
      else
        let atts = map snd (all_attestations ts);
            types = map class_name atts
        in [(''attestations'', JInt (int (length types))),
            (''attestation_types'', JList (map JStr types)),
            (''has_blockchain_proof'', JBool (list_ex is_blockchain atts)),
            (''has_pending_attestations'', JBool (list_ex is_pending atts))])"

definition collect_attestation_info :: "ots_env \<Rightarrow> timestamp \<Rightarrow> info" where
  "collect_attestation_info env ts = map_of (collect_attestation_items env ts)"

subsection \<open>\<open>_lookup_block_hash\<close> and \<open>_build_explorer_url\<close>\<close>

text \<open>
  \<open>s.strip()\<close> of a \<open>str\<close> removes the characters for which \<open>str.isspace\<close> holds. A
  character of a \<open>string\<close> is a code point below 256; the white space among these are
  the twelve code points listed.
\<close>

definition is_unicode_space :: "char \<Rightarrow> bool" where
  "is_unicode_space c =
     ((of_char c :: nat) \<in> {9, 10, 11, 12, 13, 28, 29, 30, 31, 32, 133, 160})"

definition strip_str :: "string \<Rightarrow> string" where
  "strip_str s = rev (dropWhile is_unicode_space (rev (dropWhile is_unicode_space s)))"

fun truthy_jv :: "jv \<Rightarrow> bool" where
  "truthy_jv JNone = False"
| "truthy_jv (JBool b) = b"
| "truthy_jv (JInt i) = (i \<noteq> 0)"
| "truthy_jv (JStr s) = (s \<noteq> [])"
| "truthy_jv (JList vs) = (vs \<noteq> [])"
| "truthy_jv (JDict kvs) = (kvs \<noteq> [])"

definition str_jv :: "ots_env \<Rightarrow> jv \<Rightarrow> string" where
  "str_jv env v = (case v of JStr s \<Rightarrow> s | JInt i \<Rightarrow> str_int i | _ \<Rightarrow> repr_json env v)"

definition get_truthy :: "(string \<times> jv) list \<Rightarrow> string \<Rightarrow> jv option" where
  \<comment> \<open>\<open>d.get(k)\<close> when it is truthy\<close>
  "get_truthy d k =
     (case map_of d k of
        None \<Rightarrow> None
      | Some v \<Rightarrow> if truthy_jv v then Some v else None)"

definition parse_block_hash :: "ots_env \<Rightarrow> http_response \<Rightarrow> string option \<times> string option" where
  "parse_block_hash env resp =
     (if \<not> resp_ok resp then (None, Some (''api status '' @ str_int (resp_status_code resp)))
      else
        let text = strip_str (resp_text resp) in
        if text = [] then (None, Some ''empty api response'')
        else if take 1 text = ''{'' then
          (case resp_json resp of
             Inl exc \<Rightarrow> (None, Some (str_exn exc))
           | Inr (JDict d) \<Rightarrow>
               (case (case map_of d ''data'' of
                        Some (JDict dd) \<Rightarrow> get_truthy dd ''hash''
                      | _ \<Rightarrow> None) of
                  Some h \<Rightarrow> (Some (str_jv env h), None)
                | None \<Rightarrow>
                    (case get_truthy d ''hash'' of
                       Some h \<Rightarrow> (Some (str_jv env h), None)
                     | None \<Rightarrow> (None, Some ''unexpected api response'')))
           | Inr _ \<Rightarrow> (None, Some ''unexpected api response''))
        else (Some text, None))"

definition lookup_block_hash ::
  "ots_env \<Rightarrow> string \<Rightarrow> int \<Rightarrow> (string option \<times> string option) io" where
  "lookup_block_hash env chain height =
     bind ([BlockHashLookup chain height], Inr ()) (\<lambda>_.
       let settings = load_settings env in
       if chain \<noteq> ''bitcoin'' \<and> chain \<noteq> ''litecoin'' then ret (None, Some ''unsupported chain'')
       else
         let api_template = (if chain = ''bitcoin'' then btc_block_hash_api settings
                             else ltc_block_hash_api settings)
         in if api_template = [] then ret (None, Some ''block hash api disabled'')
            else
              bind (lift (format_template env api_template [(''height'', str_int height)])) (\<lambda>url.
                net_call (HttpGet url)
                  (Inr (case requests_get env url of
                          Inl exc \<Rightarrow> (None, Some (str_exn exc))
                        | Inr resp \<Rightarrow> parse_block_hash env resp))))"

definition build_explorer_url ::
  "ots_env \<Rightarrow> string \<Rightarrow> int \<Rightarrow> string option \<Rightarrow> exn + string option" where
  "build_explorer_url env chain height block_hash =
     (let settings = load_settings env in
      if chain \<noteq> ''bitcoin'' \<and> chain \<noteq> ''litecoin'' then Inr None
      else
        let block_template = (if chain = ''bitcoin'' then btc_explorer_block_url settings
                              else ltc_explorer_block_url settings);
            height_template = (if chain = ''bitcoin'' then btc_explorer_height_url settings
                               else ltc_explorer_height_url settings)
        in if truthy block_hash \<and> block_template \<noteq> []
           then map_sum id Some
                  (format_template env block_template
                     [(''hash'', the block_hash), (''height'', str_int height)])
           else if height_template \<noteq> []
           then map_sum id Some
                  (format_template env height_template
                     [(''height'', str_int height),
                      (''hash'', case block_hash of None \<Rightarrow> [] | Some h \<Rightarrow> h)])
           else Inr None)"

subsection \<open>\<open>_collect_blockchain_proofs\<close>\<close>

fun chain_of :: "attestation \<Rightarrow> (string \<times> int) option" where
  "chain_of (BitcoinBlockHeaderAttestation height) = Some (''bitcoin'', height)"
| "chain_of (LitecoinBlockHeaderAttestation height) = Some (''litecoin'', height)"
| "chain_of att = None"

definition jopt :: "string option \<Rightarrow> jv" where
  "jopt s = (case s of None \<Rightarrow> JNone | Some t \<Rightarrow> JStr t)"

type_synonym resolver_state =
  "jv list \<times> (string \<times> int) list \<times> ((string \<times> int) \<times> string option \<times> string option) list"

fun blockchain_loop :: "ots_env \<Rightarrow> attestation list \<Rightarrow> resolver_state \<Rightarrow> resolver_state io" where
  "blockchain_loop env [] st = ret st"
| "blockchain_loop env (att # atts) (proofs, seen, cache) =
     (case chain_of att of
        None \<Rightarrow> blockchain_loop env atts (proofs, seen, cache)
      | Some (chain, height) \<Rightarrow>
          if (chain, height) \<in> set seen then blockchain_loop env atts (proofs, seen, cache)
          else
            bind (case map_of cache (chain, height) of
                    Some v \<Rightarrow> ret (v, cache)
                  | None \<Rightarrow>
                      bind (lookup_block_hash env chain height)
                        (\<lambda>v. ret (v, ((chain, height), v) # cache))) (\<lambda>((block_hash, hash_error), cache').
            bind (lift (build_explorer_url env chain height block_hash)) (\<lambda>explorer_url.
              blockchain_loop env atts
                (proofs @
                   [JDict ([(''chain'', JStr chain), (''height'', JInt height),
                            (''block_hash'', jopt block_hash),
                            (''explorer_url'', jopt explorer_url)] @
                           (if truthy hash_error
                            then [(''block_hash_error'', jopt hash_error)] else []))],
                 (chain, height) # seen, cache'))))"

definition collect_blockchain_proofs :: "ots_env \<Rightarrow> timestamp \<Rightarrow> jv list io" where
  "collect_blockchain_proofs env ts =
     (if \<not> import_notary env then ret []
      else bind (blockchain_loop env (map snd (all_attestations ts)) ([], [], []))
             (\<lambda>(proofs, seen, cache). ret proofs))"


fun is_lookup :: "net \<Rightarrow> bool" where
  "is_lookup (BlockHashLookup chain height) = True"
| "is_lookup ev = False"

fun is_http_get :: "net \<Rightarrow> bool" where
  "is_http_get (HttpGet url) = True"
| "is_http_get ev = False"

subsection \<open>\<open>_collect_pending_attestations\<close>\<close>

text \<open>
  The walk returns the nodes that carry a pending attestation. A node of the tree is
  named by its path from the root, the positions of the sub-trees taken; with it go
  the message of the node and the URI of the attestation, which is all the caller reads.
  \<open>merge_at\<close> is \<open>node.merge(cal_ts)\<close> for the node at a path. Merging only adds to a
  node, so the paths collected before the loop still name the same nodes.
\<close>

fun collect_pending :: "nat list \<Rightarrow> timestamp \<Rightarrow> (nat list \<times> bytes \<times> string) list"
  and collect_pending_ops :: "nat list \<Rightarrow> nat \<Rightarrow> (op \<times> timestamp) list \<Rightarrow> (nat list \<times> bytes \<times> string) list" where
  "collect_pending path (Timestamp m atts os) =
     concat (map (\<lambda>att. case att of PendingAttestation uri \<Rightarrow> [(path, m, uri)] | _ \<Rightarrow> []) atts)
       @ collect_pending_ops path 0 os"
| "collect_pending_ops path i [] = []"
| "collect_pending_ops path i ((opr, t) # os) =
     collect_pending (path @ [i]) t @ collect_pending_ops path (Suc i) os"

fun merge_at :: "nat list \<Rightarrow> timestamp \<Rightarrow> timestamp \<Rightarrow> exn + timestamp" where
  "merge_at [] cal_ts node = merge node cal_ts"
| "merge_at (i # path) cal_ts (Timestamp m atts os) =
     (if i < length os then
        (case merge_at path cal_ts (snd (os ! i)) of
           Inl exc \<Rightarrow> Inl exc
         | Inr t \<Rightarrow> Inr (Timestamp m atts (os[i := (fst (os ! i), t)])))
      else Inl (LibraryError ''no node at this path''))"

subsection \<open>\<open>verify_ots\<close>\<close>

type_synonym upgrade_state = "timestamp \<times> bool \<times> string list \<times> jv list"

fun upgrade_loop ::
  "ots_env \<Rightarrow> (nat list \<times> bytes \<times> string) list \<Rightarrow> upgrade_state \<Rightarrow> net list \<times> upgrade_state" where
  "upgrade_loop env [] st = ([], st)"
| "upgrade_loop env ((path, node_msg, uri) # rest) (ts, upgraded, upgrade_errors, calendar_results) =
     (let failed = (\<lambda>exc.
            (ts, upgraded, upgrade_errors @ [uri @ '': '' @ str_exn exc],
             calendar_results @
               [JDict [(''uri'', JStr uri), (''success'', JBool False),
                       (''error'', JStr (str_exn exc))]]));
          st' =
            (case calendar_get_timestamp env uri node_msg of
               Inl exc \<Rightarrow> failed exc
             | Inr cal_ts \<Rightarrow>
                 (case merge_at path cal_ts ts of
                    Inl exc \<Rightarrow> failed exc
                  | Inr merged \<Rightarrow>
                      (merged, True, upgrade_errors,
                       calendar_results @
                         [JDict [(''uri'', JStr uri), (''success'', JBool True),
                                 (''summary'', JDict (collect_attestation_items env cal_ts))]])));
          (tr, final) = upgrade_loop env rest st'
      in (CalendarGet uri node_msg # tr, final))"

definition hash_differs :: "string option \<Rightarrow> bytes \<Rightarrow> bool io" where
  \<comment> \<open>\<open>if hash_hex:\<close> \<open>expected = bytes.fromhex(hash_hex)\<close>, then whether \<open>msg != expected\<close>\<close>
  "hash_differs hash_hex m =
     (if truthy hash_hex
      then bind (lift (fromhex (the hash_hex))) (\<lambda>expected. ret (m \<noteq> expected))
      else ret False)"

definition put_if :: "bool \<Rightarrow> string \<Rightarrow> jv \<Rightarrow> info \<Rightarrow> info" where
  "put_if c k v i = (if c then i(k \<mapsto> v) else i)"

definition verify_ots_core :: "ots_env \<Rightarrow> bytes \<Rightarrow> string option \<Rightarrow> OTSResult io" where
  \<comment> \<open>the branch taken when no client library is loaded\<close>
  "verify_ots_core env ots_bytes_in hash_hex =
     (case import_core env of
        Some exc \<Rightarrow> ret (ots_fail (''opentimestamps core unavailable: '' @ str_exn exc) Map.empty)
      | None \<Rightarrow>
          bind (lift (deserialize_detached env ots_bytes_in)) (\<lambda>detached.
          bind (hash_differs hash_hex (msg (timestamp detached))) (\<lambda>differs.
            if differs
            then ret (ots_fail ''hash mismatch''
                        ((collect_attestation_info env (timestamp detached))
                           (''hash_match'' \<mapsto> JBool False)))
            else
              (case upgrade_loop env (collect_pending [] (timestamp detached))
                      (timestamp detached, False, [], []) of
                 (tr, ts, upgraded, upgrade_errors, calendar_results) \<Rightarrow>
                   bind (tr, Inr ()) (\<lambda>_.
                   bind (collect_blockchain_proofs env ts) (\<lambda>proofs.
                   let info =
                         put_if (calendar_results \<noteq> []) ''calendar_results'' (JList calendar_results)
                          (put_if (upgrade_errors \<noteq> []) ''upgrade_errors'' (JList (map JStr upgrade_errors))
                            (put_if (proofs \<noteq> []) ''blockchain_proofs'' (JList proofs)
                              (collect_attestation_info env ts)))
                   in
                   bind (if upgraded
                         then bind (lift (serialize_detached env
                                      \<lparr>file_hash_op = file_hash_op detached, timestamp = ts\<rparr>))
                                (\<lambda>bs. ret (Some bs))
                         else ret None) (\<lambda>updated.
                   bind (hash_differs hash_hex (msg ts)) (\<lambda>differs'.
                     if differs' then ret (ots_fail ''hash mismatch'' info)
                     else ret \<lparr>ots_success = True, ots_error = None,
                               ots_info = put_if (truthy hash_hex) ''hash_match'' (JBool True) info,
                               ots_bytes = None, updated_ots_bytes = updated\<rparr>))))))))"

definition verify_ots_client :: "ots_env \<Rightarrow> ots_client \<Rightarrow> bytes \<Rightarrow> string option \<Rightarrow> OTSResult io" where
  \<comment> \<open>the branch taken with a client library\<close>
  "verify_ots_client env client ots_bytes_in hash_hex =
     bind (lift (client_deserialize client ots_bytes_in)) (\<lambda>ts.
     bind (net_call (ClientVerify (msg ts)) (ots_verify client ts)) (\<lambda>result.
     bind (collect_blockchain_proofs env ts) (\<lambda>proofs.
     let info = put_if (proofs \<noteq> []) ''blockchain_proofs'' (JList proofs)
                  (collect_attestation_info env ts)
     in
     bind (hash_differs hash_hex (msg ts)) (\<lambda>differs.
       if differs
       then ret (ots_fail ''hash mismatch'' (info(''hash_match'' \<mapsto> JBool False)))
       else ret \<lparr>ots_success = True, ots_error = None,
                 ots_info =
                   (case result of
                      None \<Rightarrow> put_if (truthy hash_hex) ''hash_match'' (JBool True) info
                    | Some r \<Rightarrow>
                        (put_if (truthy hash_hex) ''hash_match'' (JBool True) info)
                          (''result'' \<mapsto> JStr r)),
                 ots_bytes = None, updated_ots_bytes = None\<rparr>))))"

definition verify_ots :: "ots_env \<Rightarrow> bytes \<Rightarrow> string option \<Rightarrow> OTSResult io" where
  "verify_ots env ots_bytes_in hash_hex =
     catch
       (case fst (load_ots_client env) of
          None \<Rightarrow> verify_ots_core env ots_bytes_in hash_hex
        | Some client \<Rightarrow> verify_ots_client env client ots_bytes_in hash_hex)
       (\<lambda>exc. ret (ots_fail (str_exn exc) Map.empty))"

section \<open>The evidence service: \<open>evidence_service.py\<close>\<close>

subsection \<open>The record store and the proof files\<close>

text \<open>
  The table \<open>evidences\<close> of \<open>evidence_repo.py\<close> is a map from the hash to its row, the
  directory tree of \<open>storage_service.py\<close> a list of directories and a list of files with
  their contents. Both are passed in and returned. The time stamps of a row are left
  out; a statement or a file operation is taken to succeed.
\<close>

record evidence_row =
  ots_status :: string
  tsa_status :: string
  ots_path :: "string option"
  tsa_path :: "string option"

record fsys =
  fs_dirs :: "string list"
  fs_files :: "(string \<times> bytes) list"

record world =
  db :: "string \<rightharpoonup> evidence_row"
  fs :: fsys

definition fetch_by_hash :: "(string \<rightharpoonup> evidence_row) \<Rightarrow> string \<Rightarrow> evidence_row option" where
  "fetch_by_hash conn hash_value = conn hash_value"



definition delete_by_hash :: "(string \<rightharpoonup> evidence_row) \<Rightarrow> string \<Rightarrow> (string \<rightharpoonup> evidence_row)" where
  "delete_by_hash conn hash_value = conn(hash_value := None)"

definition path_join :: "string \<Rightarrow> string \<Rightarrow> string" where
  \<comment> \<open>\<open>os.path.join\<close> of two components\<close>
  "path_join a b =
     (if take 1 b = ''/'' then b
      else if a = [] \<or> last a = CHR ''/'' then a @ b
      else a @ ''/'' @ b)"

definition evidence_dir :: "string \<Rightarrow> string \<Rightarrow> string" where
  "evidence_dir files_dir hash_value = path_join files_dir hash_value"





definition directly_in :: "string \<Rightarrow> string \<Rightarrow> bool" where
  \<comment> \<open>the path is \<open>os.path.join(d, name)\<close> for a name listed in the directory \<open>d\<close>\<close>
  "directly_in d p =
     (\<exists>name \<in> set [drop (length d + 1) p, drop (length d) p].
        name \<noteq> [] \<and> CHR ''/'' \<notin> set name \<and> p = path_join d name)"

definition delete_evidence_files :: "fsys \<Rightarrow> string \<Rightarrow> string \<Rightarrow> fsys" where
  "delete_evidence_files f files_dir hash_value =
     (let base_dir = evidence_dir files_dir hash_value in
      if base_dir \<notin> set (fs_dirs f) then f
      else
        let files' = filter (\<lambda>(p, c). \<not> directly_in base_dir p) (fs_files f);
            empty = (\<not> list_ex (directly_in base_dir) (fs_dirs f))
        in \<lparr>fs_dirs = (if empty then removeAll base_dir (fs_dirs f) else fs_dirs f),
            fs_files = files'\<rparr>)"



subsection \<open>\<open>process_submission\<close>\<close>







subsection \<open>\<open>delete_evidence\<close>\<close>

definition delete_evidence :: "world \<Rightarrow> string \<Rightarrow> string \<Rightarrow> bool \<Rightarrow> bool \<times> world" where
  "delete_evidence w files_dir hash_value keep_files =
     (case fetch_by_hash (db w) hash_value of
        None \<Rightarrow> (False, w)
      | Some row \<Rightarrow>
          (let f = (if \<not> keep_files then delete_evidence_files (fs w) files_dir hash_value
                    else fs w)
           in (True, \<lparr>db = delete_by_hash (db w) hash_value, fs = f\<rparr>)))"

subsection \<open>What decides the status of a protocol\<close>





section \<open>A concrete environment for running the token service\<close>

text \<open>
  A decoder for fully padded base64 text (RFC 4648), a strict decoder that accepts one
  byte string, and a module built from them. They instantiate the parameters of the
  model where it is evaluated on concrete inputs.
\<close>

definition b64_alphabet :: bytes where
  "b64_alphabet = ascii ''ABCDEFGHIJKLMNOPQRSTUVWXYZabcdefghijklmnopqrstuvwxyz0123456789+/''"

fun index_of :: "byte \<Rightarrow> bytes \<Rightarrow> nat option" where
  "index_of x [] = None"
| "index_of x (y # ys) = (if x = y then Some 0 else map_option Suc (index_of x ys))"

definition sextet :: "byte \<Rightarrow> nat option" where
  "sextet b = index_of b b64_alphabet"

definition b64_error :: exn where
  "b64_error = BinasciiError ''Incorrect padding''"

fun b64_groups :: "bytes \<Rightarrow> exn + bytes" where
  "b64_groups [] = Inr []"
| "b64_groups (a # b # c # d # rest) =
     (case (sextet a, sextet b) of
        (Some x, Some y) \<Rightarrow>
          if c = 61 \<and> d = 61 \<and> rest = [] then Inr [of_nat ((x * 64 + y) div 16)]
          else (case sextet c of
                  None \<Rightarrow> Inl b64_error
                | Some z \<Rightarrow>
                    if d = 61 \<and> rest = []
                    then Inr [of_nat (((x * 64 + y) * 64 + z) div 1024),
                              of_nat (((x * 64 + y) * 64 + z) div 4)]
                    else (case sextet d of
                            None \<Rightarrow> Inl b64_error
                          | Some w \<Rightarrow>
                              (case b64_groups rest of
                                 Inl e \<Rightarrow> Inl e
                               | Inr bs \<Rightarrow>
                                   Inr (of_nat ((((x * 64 + y) * 64 + z) * 64 + w) div 65536)
                                        # of_nat ((((x * 64 + y) * 64 + z) * 64 + w) div 256)
                                        # of_nat ((((x * 64 + y) * 64 + z) * 64 + w))
                                        # bs))))
      | _ \<Rightarrow> Inl b64_error)"
| "b64_groups _ = Inl b64_error"

definition sample_b64decode :: b64decoder where
  "sample_b64decode validate text = b64_groups text"

definition sample_imprint :: message_imprint where
  "sample_imprint = \<lparr>hashAlgorithm = Some ''2.16.840.1.101.3.4.2.1'', hashedMessage = Some [0xAB]\<rparr>"

definition sample_tsr :: tsr where
  "sample_tsr =
     \<lparr>status = Some ''granted'', time = Some ''2024-01-01 00:00:00'',
      time_stamp_token = Some (TstWithInfo (Some \<lparr>messageImprint = Some sample_imprint\<rparr>))\<rparr>"

definition sample_decoder :: "bytes \<Rightarrow> exn + tsr" where
  "sample_decoder bs =
     (if bs = ascii ''AB'' then Inr sample_tsr else Inl (LibraryError ''not a TimeStampResp''))"

definition sample_rfc3161ng :: rfc3161ng where
  "sample_rfc3161ng =
     \<lparr>decode_timestamp_response = Some sample_decoder,
      get_timestamp = Some (\<lambda>bs. Inl (LibraryError ''not a TimeStampToken'')),
      oid_to_hash = [(''1.3.14.3.2.26'', ''sha1''), (''2.16.840.1.101.3.4.2.1'', ''sha256''),
                     (''2.16.840.1.101.3.4.2.2'', ''sha384''), (''2.16.840.1.101.3.4.2.3'', ''sha512'')],
      der_decode_token = (\<lambda>bs. Inl (LibraryError ''not a TimeStampToken'')),
      ber_decode = (\<lambda>bs. Inl (LibraryError ''no substrate'')),
      ber_decode_tst_info = (\<lambda>bs. Inl (LibraryError ''no substrate''))\<rparr>"

definition sample_tsa_env :: tsa_env where
  "sample_tsa_env =
     \<lparr>import_rfc3161ng = Inr sample_rfc3161ng,
      b64decode = sample_b64decode,
      remote_timestamper = Inr (\<lambda>url digest. Inr (RespBytes (ascii ''AB''))),
      utf8_replace = map (\<lambda>b. char_of (unat b)),
      utf8_encode = map of_char,
      repr_dict = (\<lambda>d. ''{...}'')\<rparr>"

section \<open>A concrete environment for running the calendar service\<close>

text \<open>
  Three calendars of which the second times out, a serialisation that keeps the message
  only and reads any non-empty byte string as a proof with two anchors at the same
  block, the settings of \<open>config.py\<close>, and no client library.
\<close>

fun fill_fields :: "(string \<times> string) list \<Rightarrow> string \<Rightarrow> string option \<Rightarrow> string" where
  \<comment> \<open>replaces \<open>{name}\<close> by the value of \<open>name\<close> and leaves an unknown field as written, so
      that it never raises; the third argument is the field name being read\<close>
  "fill_fields kv [] None = []"
| "fill_fields kv [] (Some name) = CHR ''{'' # name"
| "fill_fields kv (c # cs) None =
     (if c = CHR ''{'' then fill_fields kv cs (Some [])
      else c # fill_fields kv cs None)"
| "fill_fields kv (c # cs) (Some name) =
     (if c = CHR ''}'' then
        (case map_of kv name of
           None \<Rightarrow> ''{'' @ name @ ''}''
         | Some v \<Rightarrow> v) @ fill_fields kv cs None
      else fill_fields kv cs (Some (name @ [c])))"

definition sample_settings :: settings where
  "sample_settings =
     \<lparr>tsa_url = ''https://freetsa.org/tsr'',
      ots_calendar_urls = [''https://a.pool.opentimestamps.org'', ''https://b.pool.opentimestamps.org'',
                           ''https://a.pool.eternitywall.com''],
      btc_block_hash_api = ''https://blockstream.info/api/block-height/{height}'',
      ltc_block_hash_api = ''https://sochain.com/api/v2/get_block/LTC/{height}'',
      btc_explorer_block_url = ''https://blockchair.com/bitcoin/block/{hash}'',
      ltc_explorer_block_url = ''https://blockchair.com/litecoin/block/{hash}'',
      btc_explorer_height_url = ''https://blockchair.com/bitcoin/block/{height}'',
      ltc_explorer_height_url = ''https://blockchair.com/litecoin/block/{height}''\<rparr>"

definition sample_submit :: "string \<Rightarrow> bytes \<Rightarrow> exn + timestamp" where
  "sample_submit url digest =
     (if url = ''https://b.pool.opentimestamps.org'' then Inl (LibraryError ''timed out'')
      else Inr (Timestamp digest []
                  [(OpAppend [1], Timestamp (digest @ [1]) [PendingAttestation url] [])]))"

definition sample_ots_env :: ots_env where
  "sample_ots_env =
     \<lparr>import_client = Inl (ImportError ''No module named opentimestamps.client''),
      import_client_fallback = Inr None,
      import_core = None,
      import_notary = True,
      calendar_submit = sample_submit,
      calendar_get_timestamp = (\<lambda>uri m. Inr (Timestamp m [BitcoinBlockHeaderAttestation 800000] [])),
      serialize_detached = (\<lambda>d. Inr (msg (timestamp d))),
      deserialize_detached =
        (\<lambda>bs. if bs = [] then Inl (LibraryError ''unexpected end of file'')
              else Inr \<lparr>file_hash_op = OpSHA256,
                         timestamp = Timestamp bs []
                           [(OpAppend [1], Timestamp (bs @ [1]) [BitcoinBlockHeaderAttestation 800000] []),
                            (OpAppend [2], Timestamp (bs @ [2]) [BitcoinBlockHeaderAttestation 800000] [])]\<rparr>),
      load_settings = sample_settings,
      format_template = (\<lambda>template kv. Inr (fill_fields kv template None)),
      requests_get =
        (\<lambda>url. Inr \<lparr>resp_ok = True, resp_status_code = 200,
                     resp_text = ''00000000000000000002a7c4c1e48d76c5a37902165a270156b7a8d72728a054'',
                     resp_json = Inl (LibraryError ''not JSON'')\<rparr>),
      repr_json = (\<lambda>v. ''...'')\<rparr>"

definition sample_client :: ots_client where
  "sample_client =
     \<lparr>ots_stamp = (\<lambda>t. Inr (Timestamp (msg t) [PendingAttestation ''https://a.pool.opentimestamps.org''] [])),
      ots_verify = (\<lambda>t. Inr None),
      client_serialize = (\<lambda>t. Inr (msg t)),
      client_deserialize = (\<lambda>bs. Inr (Timestamp bs [BitcoinBlockHeaderAttestation 800000] []))\<rparr>"

definition sample_client_env :: ots_env where
  "sample_client_env = sample_ots_env\<lparr>import_client := Inr sample_client\<rparr>"

definition strict_client :: ots_client where
  \<comment> \<open>a client library whose \<open>verify\<close> raises for an attestation it cannot confirm\<close>
  "strict_client =
     sample_client\<lparr>ots_verify := (\<lambda>t. Inl (LibraryError ''attestation not confirmed''))\<rparr>"

definition strict_client_env :: ots_env where
  "strict_client_env = sample_ots_env\<lparr>import_client := Inr strict_client\<rparr>"

section \<open>A concrete record store\<close>

text \<open>One stored hash, \<open>ab\<close>, with a calendar proof on disk and a failed token.\<close>

definition sample_world :: world where
  "sample_world =
     \<lparr>db = [''ab'' \<mapsto> \<lparr>ots_status = ''success'', tsa_status = ''failed'',
                        ots_path = Some ''/data/files/ab/ab.ots'', tsa_path = None\<rparr>],
      fs = \<lparr>fs_dirs = [''/data/files/ab''],
            fs_files = [(''/data/files/ab/ab.ots'', [0xAB])]\<rparr>\<rparr>"

section \<open>Verified properties\<close>

subsection \<open>Token decoding: binary input\<close>

lemma decode_binary:
  "decoder bs = Inl e \<Longrightarrow> \<not> is_ascii bs \<Longrightarrow>
   decode_tsa_response decoder b64 bs = ([StrictDecode bs], Inl MalformedBinaryToken)"
  by (simp add: decode_tsa_response_def)

lemma try_decode_binary:
  "decode_timestamp_response m = Some decoder \<Longrightarrow> decoder bs = Inl e \<Longrightarrow> \<not> is_ascii bs \<Longrightarrow>
   try_decode env m bs = None"
  by (simp add: try_decode_def decode_tsa_response_def)

text \<open>
  C2 (amended). When the strict decoder rejects a byte string that is not ASCII,
  \<open>_decode_tsa_response\<close> raises the error "tsa response is binary but not RFC3161
  TimeStampResp" after that single call: no base64 decoding is attempted. The caller
  \<open>_extract_tsa_info\<close> drops this exception, hands the raw bytes to the token parser and
  reports either the parser's timestamp or "invalid tsa response: ..." with the parser's
  message.
\<close>

theorem malformed_binary_token:
  assumes "decoder bs = Inl e" and "\<not> is_ascii bs"
  shows "decode_tsa_response decoder b64 bs = ([StrictDecode bs], Inl MalformedBinaryToken)
       \<and> (import_rfc3161ng env = Inr m \<and> decode_timestamp_response m = Some decoder \<longrightarrow>
            extract_tsa_info env bs =
              (case get_timestamp m of
                 Some token_parser \<Rightarrow>
                   (case token_parser bs of
                      Inr parsed \<Rightarrow> ([''time'' \<mapsto> JStr parsed, ''format'' \<mapsto> JStr ''tst''], None)
                    | Inl exc \<Rightarrow> (Map.empty, Some (''invalid tsa response: '' @ str_exn exc)))
               | None \<Rightarrow> (Map.empty, Some ''invalid tsa response: decoder unavailable'')))"
  using assms
  by (auto simp: decode_binary extract_tsa_info_def try_decode_binary)

text \<open>The theorem at the two bytes \<open>FF 30\<close>.\<close>

theorem malformed_binary_token_witness:
  "decode_tsa_response sample_decoder sample_b64decode [0xFF, 0x30]
     = ([StrictDecode [0xFF, 0x30]], Inl MalformedBinaryToken)
   \<and> extract_tsa_info sample_tsa_env [0xFF, 0x30]
     = (Map.empty, Some ''invalid tsa response: not a TimeStampToken'')"
  using malformed_binary_token [of sample_decoder "[0xFF, 0x30]" "LibraryError ''not a TimeStampResp''"
          sample_b64decode sample_tsa_env sample_rfc3161ng]
  by (simp add: sample_decoder_def ascii_def is_ascii_def sample_tsa_env_def sample_rfc3161ng_def)

text \<open>
  C2 as stated fails: for the bytes \<open>FF 30\<close> the error reported by \<open>_extract_tsa_info\<close>
  is not the message of \<open>MalformedBinaryToken\<close>.
\<close>

theorem malformed_binary_token_not_surfaced:
  "snd (extract_tsa_info sample_tsa_env [0xFF, 0x30]) \<noteq> Some (str_exn MalformedBinaryToken)"
  by (simp add: extract_tsa_info_def try_decode_def decode_tsa_response_def
        sample_decoder_def ascii_def is_ascii_def sample_tsa_env_def sample_rfc3161ng_def
        MalformedBinaryToken_def)

subsection \<open>Token decoding: bare base64 text\<close>

lemma missing_mod: "(n + nat ((- int n) mod 4)) mod 4 = 0"
proof -
  have "(int n + (- int n) mod 4) mod 4 = 0"
    by (simp add: mod_add_right_eq)
  moreover have "int (n + nat ((- int n) mod 4)) = int n + (- int n) mod 4"
    by simp
  ultimately have "int ((n + nat ((- int n) mod 4)) mod 4) = 0"
    by (simp only: zmod_int of_nat_numeral)
  then show ?thesis by (simp only: of_nat_eq_0_iff)
qed

lemma pad_b64_eq: "pad_b64 t = t @ replicate (nat ((- int (length t)) mod 4)) 61"
  by (simp add: pad_b64_def Let_def)

lemma length_pad_b64: "length (pad_b64 t) mod 4 = 0"
  unfolding pad_b64_eq by (simp only: length_append length_replicate missing_mod)

lemma decode_bare_unfold:
  assumes "decoder bs = Inl e" and "is_ascii bs"
    and "\<not> startswith (strip bs) (ascii ''-----BEGIN'')"
    and "\<not> list_ex (\<lambda>ch. ch \<notin> set allowed) (remove_byte 13 (remove_byte 10 (strip bs)))"
  shows "decode_tsa_response decoder b64 bs =
      (case decode_b64 decoder b64 True (pad_b64 (remove_byte 13 (remove_byte 10 (strip bs)))) of
         (cs1, Inr tsr) \<Rightarrow> (StrictDecode bs # cs1, Inr tsr)
       | (cs1, Inl _) \<Rightarrow>
           (case decode_b64 decoder b64 False (pad_b64 (remove_byte 13 (remove_byte 10 (strip bs)))) of
              (cs2, r2) \<Rightarrow> (StrictDecode bs # (cs1 @ cs2), r2)))"
  using assms by (simp add: decode_tsa_response_def Let_def split: prod.splits sum.splits)

lemma list_ex_not_allowed: "list_ex (\<lambda>ch. ch \<notin> set allowed) t \<longleftrightarrow> \<not> list_all (\<lambda>ch. ch \<in> set allowed) t"
  by (induction t) auto

text \<open>
  C8. In the bare-base64 step (the strict decoder rejected the bytes, they are ASCII and
  the stripped text does not start with the PEM marker), with \<open>b64_text\<close> the stripped
  text without line breaks: a character outside the alphabet makes the decoding fail
  with "tsa response is not base64 or ASN.1 data" before any base64 call; otherwise the
  text is padded with \<open>=\<close> by \<open>(-len) mod 4\<close> characters to a multiple of 4, the padded
  text is what is base64-decoded (first with validation), and when that decoding and
  the strict decoding of its result succeed, the whole decoding succeeds.
\<close>

theorem bare_base64_step:
  assumes "decoder bs = Inl e" and "is_ascii bs"
    and "\<not> startswith (strip bs) (ascii ''-----BEGIN'')"
    and "b64_text = remove_byte 13 (remove_byte 10 (strip bs))"
  shows "(list_ex (\<lambda>ch. ch \<notin> set allowed) b64_text \<longrightarrow>
            decode_tsa_response decoder b64 bs = ([StrictDecode bs], Inl InvalidBase64Alphabet))
       \<and> (list_all (\<lambda>ch. ch \<in> set allowed) b64_text \<longrightarrow>
            pad_b64 b64_text = b64_text @ replicate (nat ((- int (length b64_text)) mod 4)) 61
          \<and> length (pad_b64 b64_text) mod 4 = 0
          \<and> take 2 (fst (decode_tsa_response decoder b64 bs))
              = [StrictDecode bs, B64Decode True (pad_b64 b64_text)]
          \<and> snd (decode_tsa_response decoder b64 bs)
              = (case snd (decode_b64 decoder b64 True (pad_b64 b64_text)) of
                   Inr t \<Rightarrow> Inr t
                 | Inl _ \<Rightarrow> snd (decode_b64 decoder b64 False (pad_b64 b64_text)))
          \<and> (\<forall>raw t. b64 True (pad_b64 b64_text) = Inr raw \<and> decoder raw = Inr t \<longrightarrow>
                snd (decode_tsa_response decoder b64 bs) = Inr t))"
proof (intro conjI impI)
  assume "list_ex (\<lambda>ch. ch \<notin> set allowed) b64_text"
  with assms show "decode_tsa_response decoder b64 bs = ([StrictDecode bs], Inl InvalidBase64Alphabet)"
    by (simp add: decode_tsa_response_def Let_def)
next
  show "pad_b64 b64_text = b64_text @ replicate (nat ((- int (length b64_text)) mod 4)) 61"
    by (rule pad_b64_eq)
next
  show "length (pad_b64 b64_text) mod 4 = 0"
    by (rule length_pad_b64)
next
  assume "list_all (\<lambda>ch. ch \<in> set allowed) b64_text"
  then have "\<not> list_ex (\<lambda>ch. ch \<notin> set allowed) (remove_byte 13 (remove_byte 10 (strip bs)))"
    using assms(4) by (simp add: list_ex_not_allowed)
  note unf = decode_bare_unfold [where decoder=decoder and bs=bs and ?b64.0=b64, OF assms(1-3) this, folded assms(4)]
  show "take 2 (fst (decode_tsa_response decoder b64 bs))
          = [StrictDecode bs, B64Decode True (pad_b64 b64_text)]"
    unfolding unf by (simp add: decode_b64_def split: sum.splits prod.splits)
  show res: "snd (decode_tsa_response decoder b64 bs)
          = (case snd (decode_b64 decoder b64 True (pad_b64 b64_text)) of
               Inr t \<Rightarrow> Inr t
             | Inl _ \<Rightarrow> snd (decode_b64 decoder b64 False (pad_b64 b64_text)))"
    unfolding unf by (simp split: sum.splits prod.splits)
  show "\<forall>raw t. b64 True (pad_b64 b64_text) = Inr raw \<and> decoder raw = Inr t \<longrightarrow>
           snd (decode_tsa_response decoder b64 bs) = Inr t"
    unfolding res by (simp add: decode_b64_def)
qed

lemma sample_b64_QUI: "sample_b64decode v (ascii ''QUI='') = Inr (ascii ''AB'')"
  by (simp add: sample_b64decode_def ascii_def sextet_def b64_alphabet_def)

text \<open>
  The theorem at \<open>QU*I\<close> (an illegal character) and at \<open>QUI\<close> between line breaks
  (one \<open>=\<close> missing).
\<close>

theorem bare_base64_step_witness:
  "decode_tsa_response sample_decoder sample_b64decode (ascii ''QU*I'')
     = ([StrictDecode (ascii ''QU*I'')], Inl InvalidBase64Alphabet)
   \<and> pad_b64 (ascii ''QUI'') = ascii ''QUI=''
   \<and> snd (decode_tsa_response sample_decoder sample_b64decode ([10] @ ascii ''QUI'' @ [13, 10]))
     = Inr sample_tsr"
proof -
  have 1: "sample_decoder (ascii ''QU*I'') = Inl (LibraryError ''not a TimeStampResp'')"
    by (simp add: sample_decoder_def ascii_def)
  have 2: "is_ascii (ascii ''QU*I'')" by (simp add: is_ascii_def ascii_def)
  have 3: "\<not> startswith (strip (ascii ''QU*I'')) (ascii ''-----BEGIN'')"
    by (simp add: startswith_def strip_def ascii_def is_space_def)
  have 4: "ascii ''QU*I'' = remove_byte 13 (remove_byte 10 (strip (ascii ''QU*I'')))"
    by (simp add: remove_byte_def strip_def ascii_def is_space_def)
  have 5: "list_ex (\<lambda>ch. ch \<notin> set allowed) (ascii ''QU*I'')"
    by (simp add: allowed_def ascii_def)
  let ?bs = "[10] @ ascii ''QUI'' @ [13, 10]"
  have 6: "sample_decoder ?bs = Inl (LibraryError ''not a TimeStampResp'')"
    by (simp add: sample_decoder_def ascii_def)
  have 7: "is_ascii ?bs" by (simp add: is_ascii_def ascii_def)
  have 8: "\<not> startswith (strip ?bs) (ascii ''-----BEGIN'')"
    by (simp add: startswith_def strip_def ascii_def is_space_def)
  have 9: "ascii ''QUI'' = remove_byte 13 (remove_byte 10 (strip ?bs))"
    by (simp add: remove_byte_def strip_def ascii_def is_space_def)
  have 10: "list_all (\<lambda>ch. ch \<in> set allowed) (ascii ''QUI'')"
    by (simp add: allowed_def ascii_def)
  have 11: "pad_b64 (ascii ''QUI'') = ascii ''QUI=''"
    by (simp add: pad_b64_def ascii_def)
  have 12: "sample_decoder (ascii ''AB'') = Inr sample_tsr"
    by (simp add: sample_decoder_def)
  from bare_base64_step [where decoder=sample_decoder and bs="ascii ''QU*I''" and ?b64.0=sample_b64decode, OF 1 2 3 4] 5
  have a: "decode_tsa_response sample_decoder sample_b64decode (ascii ''QU*I'')
     = ([StrictDecode (ascii ''QU*I'')], Inl InvalidBase64Alphabet)" by blast
  from bare_base64_step [where decoder=sample_decoder and bs="?bs" and ?b64.0=sample_b64decode, OF 6 7 8 9] 10
  have "\<forall>raw t. sample_b64decode True (pad_b64 (ascii ''QUI'')) = Inr raw \<and> sample_decoder raw = Inr t \<longrightarrow>
           snd (decode_tsa_response sample_decoder sample_b64decode ?bs) = Inr t" by blast
  with 11 12 sample_b64_QUI have b: "snd (decode_tsa_response sample_decoder sample_b64decode ?bs) = Inr sample_tsr"
    by simp
  from a b 11 show ?thesis by simp
qed

subsection \<open>Token verification: the message imprint\<close>

lemma fst_extract_message_imprint:
  "fst (extract_message_imprint m (TstWithInfo (Some \<lparr>messageImprint =
          Some \<lparr>hashAlgorithm = a, hashedMessage = h\<rparr>\<rparr>))) = h"
  by (simp add: extract_message_imprint_def find_tst_info_def Let_def split: option.splits)

text \<open>
  C5 (amended). The service compares no length with the digest length of the declared
  algorithm. With a digest supplied, \<open>_check_tsa_hash\<close> accepts a token exactly when
  the hex string parses and the token's hashed message is byte-equal to the parsed
  digest (so the two have the same length); the declared algorithm only reaches the
  debug metadata, and the imprint extracted is the same whatever algorithm is declared.
\<close>

theorem imprint_accepted_iff_equal:
  "(check_tsa_hash env m bs hash_hex = None \<longleftrightarrow>
      (\<exists>digest t dbg. fromhex hash_hex = Inr digest \<and> extract_tst_token env m bs = Some t
          \<and> extract_message_imprint m t = (Some digest, dbg)))
   \<and> fst (extract_message_imprint m (TstWithInfo (Some \<lparr>messageImprint =
          Some \<lparr>hashAlgorithm = a, hashedMessage = h\<rparr>\<rparr>))) = h"
proof
  show "check_tsa_hash env m bs hash_hex = None \<longleftrightarrow>
      (\<exists>digest t dbg. fromhex hash_hex = Inr digest \<and> extract_tst_token env m bs = Some t
          \<and> extract_message_imprint m t = (Some digest, dbg))"
    by (auto simp: check_tsa_hash_def split: sum.splits option.splits prod.splits)
  show "fst (extract_message_imprint m (TstWithInfo (Some \<lparr>messageImprint =
          Some \<lparr>hashAlgorithm = a, hashedMessage = h\<rparr>\<rparr>))) = h"
    by (rule fst_extract_message_imprint)
qed

lemma sample_try_decode: "try_decode sample_tsa_env sample_rfc3161ng (ascii ''AB'') = Some sample_tsr"
  by (simp add: try_decode_def sample_tsa_env_def sample_rfc3161ng_def decode_tsa_response_def
        sample_decoder_def)

lemma sample_import: "import_rfc3161ng sample_tsa_env = Inr sample_rfc3161ng"
  by (simp add: sample_tsa_env_def)

lemma sample_check_tsa_hash:
  "check_tsa_hash sample_tsa_env sample_rfc3161ng (ascii ''AB'') ''ab'' = None"
  by (simp add: check_tsa_hash_def extract_tst_token_def sample_try_decode sample_tsr_def
        extract_message_imprint_def find_tst_info_def sample_imprint_def Let_def
        fromhex_def hexdigit_def is_space_char_def)

lemma sample_extract_tsa_info:
  "extract_tsa_info sample_tsa_env (ascii ''AB'')
     = ([''status'' \<mapsto> JStr ''granted'', ''time'' \<mapsto> JStr ''2024-01-01 00:00:00'',
         ''format'' \<mapsto> JStr ''tsr''], None)"
  by (simp add: extract_tsa_info_def sample_import sample_try_decode put_opt_def sample_tsr_def)

lemma sample_repr: "repr_dict sample_tsa_env d = ''{...}''"
  by (simp add: sample_tsa_env_def)

text \<open>
  The theorem at the sample token, whose imprint is the single byte \<open>AB\<close>: the digest
  \<open>ab\<close> is accepted, the digest \<open>abcd\<close> is not.
\<close>

theorem imprint_accepted_iff_equal_witness:
  "check_tsa_hash sample_tsa_env sample_rfc3161ng (ascii ''AB'') ''ab'' = None
   \<and> check_tsa_hash sample_tsa_env sample_rfc3161ng (ascii ''AB'') ''abcd'' \<noteq> None"
proof -
  have t: "extract_tst_token sample_tsa_env sample_rfc3161ng (ascii ''AB'')
             = Some (TstWithInfo (Some \<lparr>messageImprint = Some sample_imprint\<rparr>))"
    by (simp add: extract_tst_token_def sample_try_decode sample_tsr_def)
  have i: "fst (extract_message_imprint sample_rfc3161ng
             (TstWithInfo (Some \<lparr>messageImprint = Some sample_imprint\<rparr>))) = Some [0xAB]"
    using imprint_accepted_iff_equal [of sample_tsa_env sample_rfc3161ng "[]" "[]"
            "Some ''2.16.840.1.101.3.4.2.1''" "Some [0xAB]"]
    by (simp add: sample_imprint_def)
  have h1: "fromhex ''ab'' = Inr [0xAB]"
    by (simp add: fromhex_def hexdigit_def is_space_char_def)
  have h2: "fromhex ''abcd'' = Inr [0xAB, 0xCD]"
    by (simp add: fromhex_def hexdigit_def is_space_char_def)
  from imprint_accepted_iff_equal [of sample_tsa_env sample_rfc3161ng "ascii ''AB''" "''ab''"]
  have 1: "check_tsa_hash sample_tsa_env sample_rfc3161ng (ascii ''AB'') ''ab'' = None"
    using t i h1 by (auto simp: fst_def split: prod.splits)
  from imprint_accepted_iff_equal [of sample_tsa_env sample_rfc3161ng "ascii ''AB''" "''abcd''"]
  have 2: "check_tsa_hash sample_tsa_env sample_rfc3161ng (ascii ''AB'') ''abcd'' \<noteq> None"
    using t i h2 by (auto simp: fst_def split: prod.splits)
  from 1 2 show ?thesis by simp
qed

text \<open>
  C5 as stated fails: the sample token declares SHA-256 (32 bytes) and carries a
  one-byte hashed message, and verification against the digest \<open>ab\<close> succeeds.
\<close>

theorem short_imprint_accepted:
  "tsa_success (verify_tsa sample_tsa_env (ascii ''AB'') (Some ''ab''))
   \<and> \<not> imprint_length_ok sample_rfc3161ng sample_imprint"
proof -
  have "extract_tsa_info sample_tsa_env (ascii ''AB'')
          = ([''status'' \<mapsto> JStr ''granted'', ''time'' \<mapsto> JStr ''2024-01-01 00:00:00'',
              ''format'' \<mapsto> JStr ''tsr''], None)"
    by (simp add: extract_tsa_info_def sample_import sample_try_decode put_opt_def sample_tsr_def)
  then have "tsa_success (verify_tsa sample_tsa_env (ascii ''AB'') (Some ''ab''))"
    by (simp add: verify_tsa_def sample_import sample_check_tsa_hash truthy_def)
  moreover have "\<not> imprint_length_ok sample_rfc3161ng sample_imprint"
    by (simp add: imprint_length_ok_def sample_imprint_def sample_rfc3161ng_def digest_size_def)
  ultimately show ?thesis by simp
qed

subsection \<open>Calendar aggregation\<close>

lemma length_outcomes: "length (outcomes env digest base urls) = length urls"
  by (induction urls arbitrary: base) auto

lemma failures_plus_successes: "length (failure_strings outs) + successes outs = length outs"
  by (induction outs) (auto simp: failure_strings_def successes_def split: sum.splits)

lemma calendar_loop_outcomes:
  "\<exists>final. calendar_loop env digest urls (base, errors, n) =
      (map (\<lambda>url. CalendarSubmit url digest) urls,
       final,
       errors @ failure_strings (outcomes env digest base urls),
       n + successes (outcomes env digest base urls))"
proof (induction urls arbitrary: base errors n)
  case Nil
  then show ?case by (simp add: failure_strings_def successes_def)
next
  case (Cons url urls)
  show ?case
  proof (cases "attempt env digest base url")
    case (Inl exc)
    from Cons [of base "errors @ [url @ '': '' @ str_exn exc]" n] obtain final where
      "calendar_loop env digest urls (base, errors @ [url @ '': '' @ str_exn exc], n) =
         (map (\<lambda>url. CalendarSubmit url digest) urls, final,
          (errors @ [url @ '': '' @ str_exn exc]) @ failure_strings (outcomes env digest base urls),
          n + successes (outcomes env digest base urls))" by blast
    with Inl show ?thesis
      by (auto simp: attempt_def failure_strings_def successes_def split: sum.splits)
  next
    case (Inr merged)
    from Cons [of merged errors "n + 1"] obtain final where
      "calendar_loop env digest urls (merged, errors, n + 1) =
         (map (\<lambda>url. CalendarSubmit url digest) urls, final,
          errors @ failure_strings (outcomes env digest merged urls),
          n + 1 + successes (outcomes env digest merged urls))" by blast
    with Inr show ?thesis
      by (auto simp: attempt_def failure_strings_def successes_def split: sum.splits)
  qed
qed

text \<open>
  C3. For a digest and a non-empty list of N calendars (the core library imports, the
  hex string parses, the serialiser returns), aggregation submits to every endpoint in
  order, whatever the earlier ones answered. With \<open>k\<close> the number of endpoints that
  succeeded, the outcome is a success exactly when \<open>k\<close> is at least 1; it then reports
  \<open>k\<close> and the error strings "endpoint: message" of the N - k failed endpoints in
  endpoint order; with no success it is the failure "all calendars failed" carrying
  the error strings of all N endpoints.
\<close>

theorem aggregation_outcome:
  assumes "import_core env = None" and "calendars \<noteq> []"
    and "fromhex hash_hex = Inr digest"
    and "\<forall>d. \<exists>bs. serialize_detached env d = Inr bs"
    and "outs = outcomes env digest (Timestamp digest [] []) calendars"
    and "k = successes outs"
  shows "fst (create_ots_with_calendar env hash_hex calendars)
           = map (\<lambda>url. CalendarSubmit url digest) calendars
       \<and> length (failure_strings outs) = length calendars - k
       \<and> (\<exists>r. snd (create_ots_with_calendar env hash_hex calendars) = Inr r
              \<and> (ots_success r \<longleftrightarrow> 1 \<le> k)
              \<and> (1 \<le> k \<longrightarrow>
                    ots_error r = None
                  \<and> ots_info r ''calendar_success'' = Some (JInt (int k))
                  \<and> ots_info r ''calendar_errors'' = Some (JList (map JStr (failure_strings outs))))
              \<and> (k = 0 \<longrightarrow>
                    ots_error r = Some ''all calendars failed''
                  \<and> ots_info r ''errors'' = Some (JList (map JStr (failure_strings outs)))))"
proof -
  from calendar_loop_outcomes [of env digest calendars "Timestamp digest [] []" "[]" 0]
  obtain final where loop:
    "calendar_loop env digest calendars (Timestamp digest [] [], [], 0) =
       (map (\<lambda>url. CalendarSubmit url digest) calendars, final, failure_strings outs, k)"
    using assms(5,6) by auto
  from assms(4) obtain bs where
    ser: "serialize_detached env \<lparr>file_hash_op = OpSHA256, timestamp = final\<rparr> = Inr bs"
    by blast
  have len: "length (failure_strings outs) = length calendars - k"
    using failures_plus_successes [of outs] assms(5,6) length_outcomes [of env digest _ calendars]
    by simp
  show ?thesis
  proof (cases "k = 0")
    case True
    with assms(1-3) loop len show ?thesis
      by (simp add: create_ots_with_calendar_def bind_def lift_def ret_def ots_fail_def)
  next
    case False
    with assms(1-3) loop ser len show ?thesis
      by (simp add: create_ots_with_calendar_def bind_def lift_def ret_def)
  qed
qed

lemma sample_core: "import_core sample_ots_env = None"
  by (simp add: sample_ots_env_def)

lemma sample_serialize: "\<forall>d. \<exists>bs. serialize_detached sample_ots_env d = Inr bs"
  by (simp add: sample_ots_env_def)

lemma fromhex_ab: "fromhex ''ab'' = Inr [0xAB]"
  by (simp add: fromhex_def hexdigit_def is_space_char_def)

lemma sample_outcomes:
  "failure_strings (outcomes sample_ots_env [0xAB] (Timestamp [0xAB] [] [])
      [''https://a.pool.opentimestamps.org'', ''https://b.pool.opentimestamps.org'',
       ''https://a.pool.eternitywall.com''])
     = [''https://b.pool.opentimestamps.org: timed out'']
   \<and> successes (outcomes sample_ots_env [0xAB] (Timestamp [0xAB] [] [])
      [''https://a.pool.opentimestamps.org'', ''https://b.pool.opentimestamps.org'',
       ''https://a.pool.eternitywall.com'']) = 2"
  by (simp add: attempt_def sample_ots_env_def sample_submit_def merge_def union_atts_def
        failure_strings_def successes_def)

text \<open>
  The theorem at three calendars of which the second fails: every endpoint is
  attempted, the outcome is a success, and the error list holds the one failure.
\<close>

theorem aggregation_outcome_witness:
  "fst (create_ots_with_calendar sample_ots_env ''ab''
          [''https://a.pool.opentimestamps.org'', ''https://b.pool.opentimestamps.org'',
           ''https://a.pool.eternitywall.com''])
     = [CalendarSubmit ''https://a.pool.opentimestamps.org'' [0xAB],
        CalendarSubmit ''https://b.pool.opentimestamps.org'' [0xAB],
        CalendarSubmit ''https://a.pool.eternitywall.com'' [0xAB]]
   \<and> (\<exists>r. snd (create_ots_with_calendar sample_ots_env ''ab''
          [''https://a.pool.opentimestamps.org'', ''https://b.pool.opentimestamps.org'',
           ''https://a.pool.eternitywall.com'']) = Inr r
        \<and> ots_success r
        \<and> ots_info r ''calendar_success'' = Some (JInt 2)
        \<and> ots_info r ''calendar_errors''
             = Some (JList [JStr ''https://b.pool.opentimestamps.org: timed out'']))"
  using aggregation_outcome [OF sample_core _ fromhex_ab sample_serialize refl refl,
          of "[''https://a.pool.opentimestamps.org'', ''https://b.pool.opentimestamps.org'',
               ''https://a.pool.eternitywall.com'']"]
  by (auto simp: sample_outcomes simp del: outcomes.simps)

subsection \<open>Proof creation without calendars\<close>

text \<open>
  C4 (amended). When no client library is loaded and the core library imports, proof
  creation with no calendar list or an empty one returns at once the failure "no
  calendars configured" and makes no call that leaves the process. When a client
  library is loaded the calendar list is not looked at: the result is that of the
  call without a list.
\<close>

theorem no_calendars_configured:
  "(fst (load_ots_client env) = None \<and> import_core env = None \<and> (calendars = None \<or> calendars = Some [])
      \<longrightarrow> create_ots env hash_hex calendars = ([], Inr (ots_fail ''no calendars configured'' Map.empty)))
   \<and> (fst (load_ots_client env) \<noteq> None
      \<longrightarrow> create_ots env hash_hex calendars = create_ots env hash_hex None)"
  by (auto simp: create_ots_def create_ots_with_calendar_def catch_def ret_def
           split: option.splits)

lemma sample_no_client: "fst (load_ots_client sample_ots_env) = None"
  by (simp add: load_ots_client_def sample_ots_env_def)

lemma sample_with_client: "fst (load_ots_client sample_client_env) = Some sample_client"
  by (simp add: load_ots_client_def sample_client_env_def)

text \<open>The theorem in the environment without a client and in the one with a client.\<close>

theorem no_calendars_configured_witness:
  "create_ots sample_ots_env ''ab'' (Some []) = ([], Inr (ots_fail ''no calendars configured'' Map.empty))
   \<and> create_ots sample_client_env ''ab'' (Some []) = create_ots sample_client_env ''ab'' None"
  using no_calendars_configured [where env=sample_ots_env and hash_hex="''ab''"
          and calendars="Some []"]
        no_calendars_configured [where env=sample_client_env and hash_hex="''ab''"
          and calendars="Some []"]
  by (simp add: sample_no_client sample_core sample_with_client)

text \<open>
  C4 as stated fails: with a client library loaded, creation with an empty calendar list
  calls the client's \<open>stamp\<close> and succeeds.
\<close>

theorem empty_calendars_with_client:
  "fst (create_ots sample_client_env ''ab'' (Some [])) = [ClientStamp [0xAB]]
   \<and> (case snd (create_ots sample_client_env ''ab'' (Some [])) of
         Inr r \<Rightarrow> ots_success r \<and> ots_error r = None
       | Inl exc \<Rightarrow> False)"
  by (simp add: create_ots_def sample_with_client fromhex_ab bind_def
        lift_def net_call_def ret_def catch_def sample_client_def)

subsection \<open>Block-hash lookups in one resolution pass\<close>

lemma lookup_block_hash_shape:
  assumes "\<forall>t kv. \<exists>u. format_template env t kv = Inr u"
    and "chain = ''bitcoin'' \<or> chain = ''litecoin''"
  shows "\<exists>tr v. lookup_block_hash env chain height = (BlockHashLookup chain height # tr, Inr v)
           \<and> filter is_lookup tr = []
           \<and> length (filter is_http_get tr) \<le> 1
           \<and> (btc_block_hash_api (load_settings env) \<noteq> [] \<and> ltc_block_hash_api (load_settings env) \<noteq> []
                \<longrightarrow> length (filter is_http_get tr) = 1)"
proof -
  let ?t = "if chain = ''bitcoin'' then btc_block_hash_api (load_settings env)
            else ltc_block_hash_api (load_settings env)"
  from assms(1) obtain u where u: "format_template env ?t [(''height'', str_int height)] = Inr u"
    by blast
  show ?thesis
  proof (cases "?t = []")
    case True
    with assms(2) show ?thesis
      by (auto simp: lookup_block_hash_def bind_def ret_def Let_def)
  next
    case False
    with assms(2) u show ?thesis
      by (auto simp: lookup_block_hash_def bind_def ret_def lift_def net_call_def Let_def)
  qed
qed

lemma chain_of_chain: "chain_of att = Some (chain, height) \<Longrightarrow> chain = ''bitcoin'' \<or> chain = ''litecoin''"
  by (cases att) auto

lemma build_explorer_url_returns:
  assumes "\<forall>t kv. \<exists>u. format_template env t kv = Inr u"
  shows "\<exists>r. build_explorer_url env chain height block_hash = Inr r"
proof -
  have "\<And>t kv. \<exists>r. map_sum id Some (format_template env t kv) = Inr r"
  proof -
    fix t kv
    from assms obtain u where "format_template env t kv = Inr u" by blast
    then show "\<exists>r. map_sum id Some (format_template env t kv) = Inr r" by simp
  qed
  then show ?thesis
    by (simp add: build_explorer_url_def Let_def)
qed

lemma card_new_key:
  assumes "k \<notin> set seen"
  shows "card (set (k # ks) - set seen) = Suc (card (set ks - set (k # seen)))"
proof -
  have "set (k # ks) - set seen = insert k (set ks - set (k # seen))"
    using assms by auto
  moreover have "k \<notin> set ks - set (k # seen)" by simp
  ultimately show ?thesis by simp
qed

lemma card_seen_key:
  assumes "k \<in> set seen"
  shows "card (set (k # ks) - set seen) = card (set ks - set seen)"
proof -
  have "set (k # ks) - set seen = set ks - set seen"
    using assms by auto
  then show ?thesis by simp
qed

lemma blockchain_loop_lookups:
  assumes fmt: "\<forall>t kv. \<exists>u. format_template env t kv = Inr u"
    and inv: "fst ` set cache \<subseteq> set seen"
  shows "\<exists>tr proofs' seen' cache'.
           blockchain_loop env atts (proofs, seen, cache) = (tr, Inr (proofs', seen', cache'))
         \<and> length (filter is_lookup tr) = card (set (List.map_filter chain_of atts) - set seen)
         \<and> length proofs' = length proofs + card (set (List.map_filter chain_of atts) - set seen)
         \<and> length (filter is_http_get tr) \<le> card (set (List.map_filter chain_of atts) - set seen)
         \<and> (btc_block_hash_api (load_settings env) \<noteq> [] \<and> ltc_block_hash_api (load_settings env) \<noteq> []
              \<longrightarrow> length (filter is_http_get tr) = card (set (List.map_filter chain_of atts) - set seen))"
  using inv
proof (induction atts arbitrary: proofs seen cache)
  case Nil
  then show ?case by (simp add: ret_def map_filter_simps)
next
  case (Cons att atts)
  show ?case
  proof (cases "chain_of att")
    case None
    with Cons.IH [OF Cons.prems, of proofs] show ?thesis
      by (simp add: map_filter_simps)
  next
    case (Some key)
    obtain chain height where key: "key = (chain, height)" by (cases key)
    show ?thesis
    proof (cases "(chain, height) \<in> set seen")
      case True
      with Cons.IH [OF Cons.prems, of proofs] Some key show ?thesis
        by (simp add: map_filter_simps card_seen_key del: set_simps)
    next
      case False
      with Cons.prems have nocache: "map_of cache (chain, height) = None"
        by (metis (no_types, lifting) domIff dom_map_of_conv_image_fst subsetD)
      from Some key have ch: "chain = ''bitcoin'' \<or> chain = ''litecoin''"
        by (auto dest: chain_of_chain)
      from lookup_block_hash_shape [OF fmt ch, of height] obtain tr1 v where
        l: "lookup_block_hash env chain height = (BlockHashLookup chain height # tr1, Inr v)"
        and l1: "filter is_lookup tr1 = []"
        and l2: "length (filter is_http_get tr1) \<le> 1"
        and l3: "btc_block_hash_api (load_settings env) \<noteq> [] \<and> ltc_block_hash_api (load_settings env) \<noteq> []
                \<longrightarrow> length (filter is_http_get tr1) = 1"
        by blast
      obtain block_hash hash_error where v: "v = (block_hash, hash_error)" by (cases v)
      from build_explorer_url_returns [OF fmt, of chain height block_hash] obtain url where
        b: "build_explorer_url env chain height block_hash = Inr url" by blast
      let ?proof = "JDict ([(''chain'', JStr chain), (''height'', JInt height),
                            (''block_hash'', jopt block_hash),
                            (''explorer_url'', jopt url)] @
                           (if truthy hash_error
                            then [(''block_hash_error'', jopt hash_error)] else []))"
      have inv': "fst ` set (((chain, height), v) # cache) \<subseteq> set ((chain, height) # seen)"
        using Cons.prems by auto
      from Cons.IH [OF inv', of "proofs @ [?proof]"] obtain tr2 proofs' seen' cache' where
        r: "blockchain_loop env atts (proofs @ [?proof], (chain, height) # seen, ((chain, height), v) # cache)
              = (tr2, Inr (proofs', seen', cache'))"
        and r1: "length (filter is_lookup tr2) = card (set (List.map_filter chain_of atts) - set ((chain, height) # seen))"
        and r2: "length proofs' = length (proofs @ [?proof]) + card (set (List.map_filter chain_of atts) - set ((chain, height) # seen))"
        and r3: "length (filter is_http_get tr2) \<le> card (set (List.map_filter chain_of atts) - set ((chain, height) # seen))"
        and r4: "btc_block_hash_api (load_settings env) \<noteq> [] \<and> ltc_block_hash_api (load_settings env) \<noteq> []
              \<longrightarrow> length (filter is_http_get tr2) = card (set (List.map_filter chain_of atts) - set ((chain, height) # seen))"
        by blast
      have step: "blockchain_loop env (att # atts) (proofs, seen, cache)
                    = (BlockHashLookup chain height # tr1 @ tr2, Inr (proofs', seen', cache'))"
        using Some key False nocache l v b r
        by (simp add: bind_def ret_def lift_def)
      have keys: "List.map_filter chain_of (att # atts) = (chain, height) # List.map_filter chain_of atts"
        using Some key by (simp add: map_filter_simps)
      note c = card_new_key [OF False, of "List.map_filter chain_of atts"]
      show ?thesis
        unfolding step keys c
        using l1 l2 l3 r1 r2 r3 r4 by auto
    qed
  qed
qed


lemma sample_notary: "import_notary sample_ots_env"
  by (simp add: sample_ots_env_def)



subsection \<open>Verification against an expected digest\<close>

lemma hash_differs_supplied:
  "hash_hex \<noteq> [] \<Longrightarrow> fromhex hash_hex = Inr expected \<Longrightarrow>
   hash_differs (Some hash_hex) m = ([], Inr (m \<noteq> expected))"
  by (simp add: hash_differs_def truthy_def bind_def lift_def ret_def)

lemma collect_blockchain_proofs_returns:
  assumes "\<forall>t kv. \<exists>u. format_template env t kv = Inr u"
  shows "\<exists>tr proofs. collect_blockchain_proofs env ts = (tr, Inr proofs)"
proof (cases "import_notary env")
  case False
  then show ?thesis by (simp add: collect_blockchain_proofs_def ret_def)
next
  case True
  have "fst ` set ([] :: ((string \<times> int) \<times> string option \<times> string option) list) \<subseteq> set []"
    by simp
  from blockchain_loop_lookups [OF assms this, of "map snd (all_attestations ts)" "[]"]
  obtain tr st where "blockchain_loop env (map snd (all_attestations ts)) ([], [], []) = (tr, Inr st)"
    by blast
  with True show ?thesis
    by (simp add: collect_blockchain_proofs_def bind_def ret_def split: prod.splits)
qed

lemma extract_tsa_info_no_hash_match: "fst (extract_tsa_info env bs) ''hash_match'' = None"
  by (simp add: extract_tsa_info_def put_opt_def split: sum.splits option.splits)

text \<open>
  C1 (amended). Let the supplied hex digest be non-empty and parse to \<open>expected\<close>.
  Without a client library: a proof that decodes to a tree whose message differs from
  \<open>expected\<close> is answered, before any call leaves the process, by success = False,
  error "hash mismatch" and the attestation summary with hash_match = False, whatever
  the attestations of the tree are; a proof that does not decode is answered with the
  decoder's message and an empty info, so the two results differ.
  With a client library the comparison comes after the library's \<open>verify\<close> and the
  block-hash lookups: when these return, the result is again success = False, error
  "hash mismatch", hash_match = False; when \<open>verify\<close> raises, the result is success =
  False with the message of the exception and an empty info, after that one call.
  For a signed token the embedded hashed message is compared with \<open>expected\<close> as a whole
  byte string, and a difference is answered by success = False and the error
  "hash mismatch: digest not equal (...)" with the debug metadata; the info of that
  result has no hash_match entry.
\<close>

theorem hash_mismatch_reported:
  assumes "hash_hex \<noteq> []" and "fromhex hash_hex = Inr expected"
  shows "(fst (load_ots_client env) = None \<and> import_core env = None
            \<and> deserialize_detached env ots_bytes_in = Inr detached
            \<and> msg (timestamp detached) \<noteq> expected
          \<longrightarrow> verify_ots env ots_bytes_in (Some hash_hex)
                = ([], Inr (ots_fail ''hash mismatch''
                              ((collect_attestation_info env (timestamp detached))
                                 (''hash_match'' \<mapsto> JBool False)))))
       \<and> (fst (load_ots_client env) = None \<and> import_core env = None
            \<and> deserialize_detached env ots_bytes_in = Inl exc
          \<longrightarrow> verify_ots env ots_bytes_in (Some hash_hex)
                = ([], Inr (ots_fail (str_exn exc) Map.empty)))
       \<and> (fst (load_ots_client env) = Some client
            \<and> client_deserialize client ots_bytes_in = Inr ts
            \<and> ots_verify client ts = Inr result
            \<and> (\<forall>t kv. \<exists>u. format_template env t kv = Inr u)
            \<and> msg ts \<noteq> expected
          \<longrightarrow> (\<exists>r. snd (verify_ots env ots_bytes_in (Some hash_hex)) = Inr r
                  \<and> \<not> ots_success r \<and> ots_error r = Some ''hash mismatch''
                  \<and> ots_info r ''hash_match'' = Some (JBool False)))
       \<and> (fst (load_ots_client env) = Some client
            \<and> client_deserialize client ots_bytes_in = Inr ts
            \<and> ots_verify client ts = Inl exc
          \<longrightarrow> verify_ots env ots_bytes_in (Some hash_hex)
                = ([ClientVerify (msg ts)], Inr (ots_fail (str_exn exc) Map.empty)))
       \<and> (extract_tst_token tenv m bs = Some t
            \<and> extract_message_imprint m t = (Some imprint, dbg)
            \<and> imprint \<noteq> expected
          \<longrightarrow> check_tsa_hash tenv m bs hash_hex
                = Some (''hash mismatch: digest not equal ('' @ repr_dict tenv dbg @ '')''))
       \<and> (import_rfc3161ng tenv = Inr m \<and> extract_tsa_info tenv bs = (i, None)
            \<and> extract_tst_token tenv m bs = Some t
            \<and> extract_message_imprint m t = (Some imprint, dbg)
            \<and> imprint \<noteq> expected
          \<longrightarrow> verify_tsa tenv bs (Some hash_hex)
                = tsa_fail (Some (''hash mismatch: digest not equal ('' @ repr_dict tenv dbg @ '')'')) i
              \<and> i ''hash_match'' = None)"
proof (intro conjI impI)
  assume a: "fst (load_ots_client env) = None \<and> import_core env = None
            \<and> deserialize_detached env ots_bytes_in = Inr detached
            \<and> msg (timestamp detached) \<noteq> expected"
  then show "verify_ots env ots_bytes_in (Some hash_hex)
                = ([], Inr (ots_fail ''hash mismatch''
                              ((collect_attestation_info env (timestamp detached))
                                 (''hash_match'' \<mapsto> JBool False))))"
    by (simp add: verify_ots_def verify_ots_core_def hash_differs_supplied [OF assms]
          bind_def lift_def ret_def catch_def)
next
  assume "fst (load_ots_client env) = None \<and> import_core env = None
            \<and> deserialize_detached env ots_bytes_in = Inl exc"
  then show "verify_ots env ots_bytes_in (Some hash_hex)
                = ([], Inr (ots_fail (str_exn exc) Map.empty))"
    by (simp add: verify_ots_def verify_ots_core_def bind_def lift_def ret_def catch_def)
next
  assume a: "fst (load_ots_client env) = Some client
            \<and> client_deserialize client ots_bytes_in = Inr ts
            \<and> ots_verify client ts = Inr result
            \<and> (\<forall>t kv. \<exists>u. format_template env t kv = Inr u)
            \<and> msg ts \<noteq> expected"
  then obtain tr proofs where p: "collect_blockchain_proofs env ts = (tr, Inr proofs)"
    using collect_blockchain_proofs_returns [of env ts] by blast
  from a p show "\<exists>r. snd (verify_ots env ots_bytes_in (Some hash_hex)) = Inr r
                  \<and> \<not> ots_success r \<and> ots_error r = Some ''hash mismatch''
                  \<and> ots_info r ''hash_match'' = Some (JBool False)"
    by (simp add: verify_ots_def verify_ots_client_def hash_differs_supplied [OF assms]
          bind_def lift_def ret_def catch_def net_call_def ots_fail_def Let_def)
next
  assume "fst (load_ots_client env) = Some client
            \<and> client_deserialize client ots_bytes_in = Inr ts
            \<and> ots_verify client ts = Inl exc"
  then show "verify_ots env ots_bytes_in (Some hash_hex)
                = ([ClientVerify (msg ts)], Inr (ots_fail (str_exn exc) Map.empty))"
    by (simp add: verify_ots_def verify_ots_client_def bind_def lift_def net_call_def ret_def
          catch_def)
next
  assume "extract_tst_token tenv m bs = Some t
            \<and> extract_message_imprint m t = (Some imprint, dbg)
            \<and> imprint \<noteq> expected"
  with assms(2) show "check_tsa_hash tenv m bs hash_hex
                = Some (''hash mismatch: digest not equal ('' @ repr_dict tenv dbg @ '')'')"
    by (simp add: check_tsa_hash_def)
next
  assume a: "import_rfc3161ng tenv = Inr m \<and> extract_tsa_info tenv bs = (i, None)
            \<and> extract_tst_token tenv m bs = Some t
            \<and> extract_message_imprint m t = (Some imprint, dbg)
            \<and> imprint \<noteq> expected"
  with assms(2) have c: "check_tsa_hash tenv m bs hash_hex
                = Some (''hash mismatch: digest not equal ('' @ repr_dict tenv dbg @ '')'')"
    by (simp add: check_tsa_hash_def)
  from a c assms(1) show "verify_tsa tenv bs (Some hash_hex)
                = tsa_fail (Some (''hash mismatch: digest not equal ('' @ repr_dict tenv dbg @ '')'')) i"
    by (simp add: verify_tsa_def truthy_def)
  from a extract_tsa_info_no_hash_match [of tenv bs] show "i ''hash_match'' = None"
    by simp
qed

lemma fromhex_abcd: "fromhex ''abcd'' = Inr [0xAB, 0xCD]"
  by (simp add: fromhex_def hexdigit_def is_space_char_def)

lemma sample_deserialize:
  "deserialize_detached sample_ots_env [0xCD] =
     Inr \<lparr>file_hash_op = OpSHA256,
          timestamp = Timestamp [0xCD] []
            [(OpAppend [1], Timestamp [0xCD, 1] [BitcoinBlockHeaderAttestation 800000] []),
             (OpAppend [2], Timestamp [0xCD, 2] [BitcoinBlockHeaderAttestation 800000] [])]\<rparr>"
  "deserialize_detached sample_ots_env [] = Inl (LibraryError ''unexpected end of file'')"
  by (simp_all add: sample_ots_env_def)

lemma sample_client_facts:
  "client_deserialize sample_client [0xCD] = Inr (Timestamp [0xCD] [BitcoinBlockHeaderAttestation 800000] [])"
  "ots_verify sample_client (Timestamp [0xCD] [BitcoinBlockHeaderAttestation 800000] []) = Inr None"
  "\<forall>t kv. \<exists>u. format_template sample_client_env t kv = Inr u"
  by (simp_all add: sample_client_def sample_client_env_def sample_ots_env_def)

lemma sample_token:
  "extract_tst_token sample_tsa_env sample_rfc3161ng (ascii ''AB'')
     = Some (TstWithInfo (Some \<lparr>messageImprint = Some sample_imprint\<rparr>))"
  by (simp add: extract_tst_token_def sample_try_decode sample_tsr_def)

lemma sample_token_imprint:
  "extract_message_imprint sample_rfc3161ng (TstWithInfo (Some \<lparr>messageImprint = Some sample_imprint\<rparr>))
     = (Some [0xAB], [(''hash_oid'', JStr ''2.16.840.1.101.3.4.2.1''), (''hash_alg'', JStr ''sha256''),
                      (''imprint_hex'', JStr ''ab'')])"
  by (simp add: extract_message_imprint_def find_tst_info_def sample_imprint_def
        sample_rfc3161ng_def hex_def hexchar_def)

text \<open>
  The theorem at a proof with two confirmed anchors whose message is \<open>CD\<close>, verified
  against the digest \<open>ab\<close> without and with a client library, at the empty byte string,
  which does not decode, and at the sample token verified against \<open>abcd\<close>.
\<close>

theorem hash_mismatch_reported_witness:
  "fst (verify_ots sample_ots_env [0xCD] (Some ''ab'')) = []
   \<and> (\<exists>r. snd (verify_ots sample_ots_env [0xCD] (Some ''ab'')) = Inr r
         \<and> \<not> ots_success r \<and> ots_error r = Some ''hash mismatch''
         \<and> ots_info r ''hash_match'' = Some (JBool False)
         \<and> ots_info r ''has_blockchain_proof'' = Some (JBool True))
   \<and> verify_ots sample_ots_env [] (Some ''ab'')
        = ([], Inr (ots_fail ''unexpected end of file'' Map.empty))
   \<and> (\<exists>r. snd (verify_ots sample_client_env [0xCD] (Some ''ab'')) = Inr r
         \<and> \<not> ots_success r \<and> ots_error r = Some ''hash mismatch''
         \<and> ots_info r ''hash_match'' = Some (JBool False))
   \<and> check_tsa_hash sample_tsa_env sample_rfc3161ng (ascii ''AB'') ''abcd''
        = Some ''hash mismatch: digest not equal ({...})''
   \<and> verify_tsa sample_tsa_env (ascii ''AB'') (Some ''abcd'')
        = tsa_fail (Some ''hash mismatch: digest not equal ({...})'')
            [''status'' \<mapsto> JStr ''granted'', ''time'' \<mapsto> JStr ''2024-01-01 00:00:00'',
             ''format'' \<mapsto> JStr ''tsr'']"
proof -
  have ne: "''ab'' \<noteq> []" "''abcd'' \<noteq> []" by simp_all
  note t1 = hash_mismatch_reported [OF ne(1) fromhex_ab, where env=sample_ots_env
              and ots_bytes_in="[0xCD]"
              and detached="\<lparr>file_hash_op = OpSHA256,
                timestamp = Timestamp [0xCD] []
                  [(OpAppend [1], Timestamp [0xCD, 1] [BitcoinBlockHeaderAttestation 800000] []),
                   (OpAppend [2], Timestamp [0xCD, 2] [BitcoinBlockHeaderAttestation 800000] [])]\<rparr>",
              THEN conjunct1]
  have 1: "verify_ots sample_ots_env [0xCD] (Some ''ab'')
        = ([], Inr (ots_fail ''hash mismatch''
             ((collect_attestation_info sample_ots_env (Timestamp [0xCD] []
            [(OpAppend [1], Timestamp [0xCD, 1] [BitcoinBlockHeaderAttestation 800000] []),
             (OpAppend [2], Timestamp [0xCD, 2] [BitcoinBlockHeaderAttestation 800000] [])]))
                (''hash_match'' \<mapsto> JBool False))))"
    using t1 sample_no_client sample_core sample_deserialize(1) by simp
  have 2: "verify_ots sample_ots_env [] (Some ''ab'')
        = ([], Inr (ots_fail ''unexpected end of file'' Map.empty))"
    using hash_mismatch_reported [OF ne(1) fromhex_ab, where env=sample_ots_env
              and ots_bytes_in="[]" and exc="LibraryError ''unexpected end of file''",
              THEN conjunct2, THEN conjunct1]
          sample_no_client sample_core sample_deserialize(2) by simp
  have 3: "\<exists>r. snd (verify_ots sample_client_env [0xCD] (Some ''ab'')) = Inr r
         \<and> \<not> ots_success r \<and> ots_error r = Some ''hash mismatch''
         \<and> ots_info r ''hash_match'' = Some (JBool False)"
    using hash_mismatch_reported [OF ne(1) fromhex_ab, where env=sample_client_env
              and ots_bytes_in="[0xCD]" and client=sample_client
              and ts="Timestamp [0xCD] [BitcoinBlockHeaderAttestation 800000] []" and result=None,
              THEN conjunct2, THEN conjunct2, THEN conjunct1]
          sample_with_client sample_client_facts by simp
  note t4 = hash_mismatch_reported [OF ne(2) fromhex_abcd, where tenv=sample_tsa_env
              and m=sample_rfc3161ng and bs="ascii ''AB''"
              and t="TstWithInfo (Some \<lparr>messageImprint = Some sample_imprint\<rparr>)"
              and imprint="[0xAB]"
              and dbg="[(''hash_oid'', JStr ''2.16.840.1.101.3.4.2.1''), (''hash_alg'', JStr ''sha256''),
                      (''imprint_hex'', JStr ''ab'')]"
              and i="[''status'' \<mapsto> JStr ''granted'', ''time'' \<mapsto> JStr ''2024-01-01 00:00:00'',
                      ''format'' \<mapsto> JStr ''tsr'']",
              THEN conjunct2, THEN conjunct2, THEN conjunct2, THEN conjunct2]
  have 4: "check_tsa_hash sample_tsa_env sample_rfc3161ng (ascii ''AB'') ''abcd''
        = Some ''hash mismatch: digest not equal ({...})''"
    using t4 [THEN conjunct1] sample_token sample_token_imprint by (simp add: sample_repr)
  have 5: "verify_tsa sample_tsa_env (ascii ''AB'') (Some ''abcd'')
        = tsa_fail (Some ''hash mismatch: digest not equal ({...})'')
            [''status'' \<mapsto> JStr ''granted'', ''time'' \<mapsto> JStr ''2024-01-01 00:00:00'',
             ''format'' \<mapsto> JStr ''tsr'']"
    using t4 [THEN conjunct2] sample_import sample_extract_tsa_info sample_token
          sample_token_imprint
    by (simp add: sample_repr)
  show ?thesis
    unfolding 1 using 2 3 4 5
    by (simp add: ots_fail_def collect_attestation_info_def collect_attestation_items_def
          sample_notary)
qed

lemma strict_client_loaded: "fst (load_ots_client strict_client_env) = Some strict_client"
  by (simp add: load_ots_client_def strict_client_env_def)

text \<open>
  C1 as stated fails: with a client library whose \<open>verify\<close> raises, a proof whose message
  \<open>CD\<close> differs from the digest \<open>ab\<close> is answered with the library's message and an empty
  info, as a proof that does not decode would be; and for a token the error is not
  "hash mismatch" and the info has no hash_match entry.
\<close>

theorem hash_mismatch_hidden_by_verify:
  "client_deserialize strict_client [0xCD]
     = Inr (Timestamp [0xCD] [BitcoinBlockHeaderAttestation 800000] [])
   \<and> fromhex ''ab'' = Inr [0xAB]
   \<and> verify_ots strict_client_env [0xCD] (Some ''ab'')
     = ([ClientVerify [0xCD]], Inr (ots_fail ''attestation not confirmed'' Map.empty))
   \<and> tsa_error (verify_tsa sample_tsa_env (ascii ''AB'') (Some ''abcd''))
     = Some ''hash mismatch: digest not equal ({...})''
   \<and> tsa_info (verify_tsa sample_tsa_env (ascii ''AB'') (Some ''abcd'')) ''hash_match'' = None"
proof -
  have 1: "client_deserialize strict_client [0xCD]
     = Inr (Timestamp [0xCD] [BitcoinBlockHeaderAttestation 800000] [])"
    by (simp add: strict_client_def sample_client_def)
  have 2: "ots_verify strict_client (Timestamp [0xCD] [BitcoinBlockHeaderAttestation 800000] [])
     = Inl (LibraryError ''attestation not confirmed'')"
    by (simp add: strict_client_def)
  have 3: "verify_ots strict_client_env [0xCD] (Some ''ab'')
     = ([ClientVerify [0xCD]], Inr (ots_fail ''attestation not confirmed'' Map.empty))"
    by (simp add: verify_ots_def strict_client_loaded verify_ots_client_def 1 2 bind_def lift_def
          net_call_def ret_def catch_def)
  have c: "check_tsa_hash sample_tsa_env sample_rfc3161ng (ascii ''AB'') ''abcd''
        = Some ''hash mismatch: digest not equal ({...})''"
    by (simp add: check_tsa_hash_def sample_token sample_token_imprint fromhex_abcd sample_repr)
  have 4: "verify_tsa sample_tsa_env (ascii ''AB'') (Some ''abcd'')
     = tsa_fail (Some ''hash mismatch: digest not equal ({...})'')
         [''status'' \<mapsto> JStr ''granted'', ''time'' \<mapsto> JStr ''2024-01-01 00:00:00'',
          ''format'' \<mapsto> JStr ''tsr'']"
    by (simp add: verify_tsa_def sample_import sample_extract_tsa_info c truthy_def)
  show ?thesis
    unfolding 4 using 1 3 fromhex_ab by (simp add: tsa_fail_def)
qed

subsection \<open>Deleting evidence\<close>

text \<open>
  C10. For a hash with no stored row, \<open>delete_evidence\<close> returns False and gives back
  the record store and the file tree as they were, whatever \<open>keep_files\<close> is; for a hash
  with a row it returns True and the row is gone.
\<close>

theorem delete_missing_evidence:
  "(db w hash_value = None \<longrightarrow> delete_evidence w files_dir hash_value keep_files = (False, w))
   \<and> (db w hash_value \<noteq> None \<longrightarrow>
        fst (delete_evidence w files_dir hash_value keep_files)
      \<and> db (snd (delete_evidence w files_dir hash_value keep_files)) hash_value = None)"
  by (auto simp: delete_evidence_def fetch_by_hash_def delete_by_hash_def Let_def)

text \<open>The theorem in a store that holds the hash \<open>ab\<close> only.\<close>

theorem delete_missing_evidence_witness:
  "delete_evidence sample_world ''/data/files'' ''cd'' False = (False, sample_world)
   \<and> delete_evidence sample_world ''/data/files'' ''cd'' True = (False, sample_world)
   \<and> fst (delete_evidence sample_world ''/data/files'' ''ab'' False)
   \<and> db (snd (delete_evidence sample_world ''/data/files'' ''ab'' False)) ''ab'' = None"
  using delete_missing_evidence [of sample_world "''cd''" "''/data/files''" False]
        delete_missing_evidence [of sample_world "''cd''" "''/data/files''" True]
        delete_missing_evidence [of sample_world "''ab''" "''/data/files''" False]
  by (simp add: sample_world_def)

subsection \<open>The status of a protocol after a submission\<close>














subsection \<open>Merging a proof twice\<close>

lemma union_atts_absorb: "list_all (\<lambda>a. a \<in> set atts) atts' \<Longrightarrow> union_atts atts atts' = atts"
  unfolding union_atts_def by (induction atts') auto

lemma set_fold_union:
  "set (fold (\<lambda>b acc. if b \<in> set acc then acc else acc @ [b]) bs acc) = set acc \<union> set bs"
  by (induction bs arbitrary: acc) auto

lemma union_atts_holds: "list_all (\<lambda>a. a \<in> set (union_atts atts atts')) atts'"
  by (simp add: union_atts_def set_fold_union list_all_iff)

lemma merge_absorb:
  "(contains c t \<longrightarrow> merge_into c t = c)"
  "(contains_ops os ps \<longrightarrow> merge_ops os ps = os)"
  "(\<forall>c'. map_of os' opr = Some c' \<longrightarrow> contains c' t') \<longrightarrow> map_of os' opr \<noteq> None \<longrightarrow>
     merge_op os' opr t' = os'"
proof (induction c t and os ps and os' opr t' rule: merge_into_merge_ops_merge_op.induct)
  case (1 m atts os m' atts' os')
  then show ?case by (simp add: union_atts_absorb)
next
  case (2 os)
  then show ?case by simp
next
  case (3 os opr t os')
  show ?case
  proof
    assume a: "contains_ops os ((opr, t) # os')"
    then obtain c where c: "map_of os opr = Some c" "contains c t" and rest: "contains_ops os os'"
      by (auto split: option.splits)
    from 3(1) c have "merge_op os opr t = os" by simp
    with 3(2) rest show "merge_ops os ((opr, t) # os') = os" by simp
  qed
next
  case (4 opr t)
  then show ?case by simp
next
  case (5 opr' c os opr t)
  then show ?case by auto
qed

lemma map_of_merge_op_other:
  "opr' \<noteq> opr \<Longrightarrow> map_of (merge_op os opr t) opr' = map_of os opr'"
  by (induction os) auto

lemma map_of_merge_ops_other:
  "opr \<notin> fst ` set ps \<Longrightarrow> map_of (merge_ops os ps) opr = map_of os opr"
proof (induction ps arbitrary: os)
  case Nil
  then show ?case by simp
next
  case (Cons p ps)
  obtain opr' t where p: "p = (opr', t)" by (cases p)
  with Cons.prems have "opr \<noteq> opr'" "opr \<notin> fst ` set ps" by auto
  with Cons.IH [of "merge_op os opr' t"] p show ?case
    by (simp add: map_of_merge_op_other)
qed

lemma contains_refl:
  "(well_formed t \<longrightarrow> contains t t)"
  "(well_formed_ops ps \<longrightarrow> (\<forall>os. (\<forall>(opr, t') \<in> set ps. map_of os opr = Some t') \<longrightarrow> contains_ops os ps))"
proof (induction t and ps rule: well_formed_well_formed_ops.induct)
  case (1 m atts os)
  show ?case
  proof
    assume w: "well_formed (Timestamp m atts os)"
    then have "\<forall>(opr, t') \<in> set os. map_of os opr = Some t'"
      by (auto intro: map_of_is_SomeI)
    with 1 w show "contains (Timestamp m atts os) (Timestamp m atts os)"
      by (simp add: list_all_iff)
  qed
next
  case 2
  then show ?case by simp
next
  case (3 opr t os)
  then show ?case by auto
qed

lemma merge_extends:
  "(well_formed t \<longrightarrow> contains (merge_into c t) t)"
  "(well_formed_ops ps \<longrightarrow> distinct (map fst ps) \<longrightarrow> contains_ops (merge_ops os ps) ps)"
  "(well_formed t' \<longrightarrow> (\<exists>c'. map_of (merge_op os' opr t') opr = Some c' \<and> contains c' t'))"
proof (induction c t and os ps and os' opr t' rule: merge_into_merge_ops_merge_op.induct)
  case (1 m atts os m' atts' os')
  then show ?case by (simp add: union_atts_holds)
next
  case (2 os)
  then show ?case by simp
next
  case (3 os opr t os')
  show ?case
  proof (intro impI)
    assume w: "well_formed_ops ((opr, t) # os')" and d: "distinct (map fst ((opr, t) # os'))"
    from 3(1) w obtain c' where c': "map_of (merge_op os opr t) opr = Some c'" "contains c' t"
      by auto
    from d have "opr \<notin> fst ` set os'" by simp
    then have "map_of (merge_ops (merge_op os opr t) os') opr = Some c'"
      using c'(1) by (simp add: map_of_merge_ops_other)
    moreover from 3(2) w d have "contains_ops (merge_ops (merge_op os opr t) os') os'"
      by simp
    ultimately show "contains_ops (merge_ops os ((opr, t) # os')) ((opr, t) # os')"
      using c'(2) by simp
  qed
next
  case (4 opr t)
  then show ?case by (simp add: contains_refl)
next
  case (5 opr' c os opr t)
  then show ?case by auto
qed

lemma merge_into_idem: "well_formed p \<Longrightarrow> merge_into (merge_into base p) p = merge_into base p"
  using merge_absorb(1) [of "merge_into base p" p] merge_extends(1) [of p base] by simp

lemma msg_merge_into: "msg (merge_into a b) = msg a"
  by (cases a; cases b) simp

text \<open>
  C6. For a proof tree \<open>p\<close> whose nodes have one sub-tree per operation, merging \<open>p\<close> into
  a base tree twice gives the same tree, hence the same number of attestations, as
  merging it once; with equal root messages both merges are accepted, and submitting
  the same digest to one calendar twice leaves the accumulated tree as after one
  submission.
\<close>

theorem merge_idempotent:
  assumes "well_formed p"
  shows "merge_into (merge_into base p) p = merge_into base p
       \<and> length (all_attestations (merge_into (merge_into base p) p))
           = length (all_attestations (merge_into base p))
       \<and> (msg base = msg p \<longrightarrow> (\<exists>t. merge base p = Inr t \<and> merge t p = Inr t))
       \<and> (calendar_submit env url digest = Inr p \<and> msg p = digest \<longrightarrow>
            fst (snd (calendar_loop env digest [url, url] (Timestamp digest [] [], [], 0)))
              = fst (snd (calendar_loop env digest [url] (Timestamp digest [] [], [], 0))))"
proof (intro conjI impI)
  show i: "merge_into (merge_into base p) p = merge_into base p"
    by (rule merge_into_idem [OF assms])
  then show "length (all_attestations (merge_into (merge_into base p) p))
           = length (all_attestations (merge_into base p))"
    by simp
  show "\<exists>t. merge base p = Inr t \<and> merge t p = Inr t" if "msg base = msg p"
    using that i by (simp add: merge_def msg_merge_into)
  show "fst (snd (calendar_loop env digest [url, url] (Timestamp digest [] [], [], 0)))
              = fst (snd (calendar_loop env digest [url] (Timestamp digest [] [], [], 0)))"
    if "calendar_submit env url digest = Inr p \<and> msg p = digest"
    using that merge_into_idem [OF assms, of "Timestamp digest [] []"]
    by (simp add: merge_def msg_merge_into)
qed

text \<open>
  The theorem at the answer of the first sample calendar for the digest \<open>AB\<close>, merged
  into a base tree that already holds the answer of another calendar.
\<close>

theorem merge_idempotent_witness:
  "merge_into
     (merge_into
        (Timestamp [0xAB] []
           [(OpAppend [1], Timestamp [0xAB, 1] [PendingAttestation ''https://a.pool.eternitywall.com''] [])])
        (Timestamp [0xAB] []
           [(OpAppend [1], Timestamp [0xAB, 1] [PendingAttestation ''https://a.pool.opentimestamps.org''] [])]))
     (Timestamp [0xAB] []
        [(OpAppend [1], Timestamp [0xAB, 1] [PendingAttestation ''https://a.pool.opentimestamps.org''] [])])
   = Timestamp [0xAB] []
       [(OpAppend [1], Timestamp [0xAB, 1]
           [PendingAttestation ''https://a.pool.eternitywall.com'',
            PendingAttestation ''https://a.pool.opentimestamps.org''] [])]
   \<and> fst (snd (calendar_loop sample_ots_env [0xAB]
          [''https://a.pool.opentimestamps.org'', ''https://a.pool.opentimestamps.org'']
          (Timestamp [0xAB] [] [], [], 0)))
     = fst (snd (calendar_loop sample_ots_env [0xAB] [''https://a.pool.opentimestamps.org'']
          (Timestamp [0xAB] [] [], [], 0)))"
proof -
  let ?p = "Timestamp [0xAB] []
        [(OpAppend [1], Timestamp [0xAB, 1] [PendingAttestation ''https://a.pool.opentimestamps.org''] [])]"
  let ?base = "Timestamp [0xAB] []
           [(OpAppend [1], Timestamp [0xAB, 1] [PendingAttestation ''https://a.pool.eternitywall.com''] [])]"
  have w: "well_formed ?p" by simp
  have once: "merge_into ?base ?p = Timestamp [0xAB] []
       [(OpAppend [1], Timestamp [0xAB, 1]
           [PendingAttestation ''https://a.pool.eternitywall.com'',
            PendingAttestation ''https://a.pool.opentimestamps.org''] [])]"
    by (simp add: union_atts_def)
  have s: "calendar_submit sample_ots_env ''https://a.pool.opentimestamps.org'' [0xAB] = Inr ?p
           \<and> msg ?p = [0xAB]"
    by (simp add: sample_ots_env_def sample_submit_def)
  note t = merge_idempotent [OF w, where base="?base" and env=sample_ots_env
             and url="''https://a.pool.opentimestamps.org''" and digest="[0xAB]"]
  from t have 1: "merge_into (merge_into ?base ?p) ?p = merge_into ?base ?p" by blast
  from t s have 2: "fst (snd (calendar_loop sample_ots_env [0xAB]
          [''https://a.pool.opentimestamps.org'', ''https://a.pool.opentimestamps.org'']
          (Timestamp [0xAB] [] [], [], 0)))
     = fst (snd (calendar_loop sample_ots_env [0xAB] [''https://a.pool.opentimestamps.org'']
          (Timestamp [0xAB] [] [], [], 0)))" by blast
  from 1 2 show ?thesis by (simp only: once)
qed

end
